theory Spec2Isabelle
  imports Main
begin

section \<open>Python values used by the RunPod management CLI\<close>

text \<open>
  The CLI (\<^verbatim>\<open>src/cli.py\<close>) works on dictionaries decoded from the provider's JSON
  answers. A key of such a dictionary is missing, holds \<^verbatim>\<open>null\<close> (Python's
  \<^verbatim>\<open>None\<close>) or holds a value; the three cases behave differently under
  \<^verbatim>\<open>d.get(k)\<close>, \<^verbatim>\<open>d.get(k, default)\<close> and \<^verbatim>\<open>d[k]\<close>, so all three are kept.
  A Python value that may be \<^verbatim>\<open>None\<close> is an \<open>option\<close>.
\<close>

datatype 'a field = Absent | Null | Present 'a

datatype py_error =
    ValueError string
  | RuntimeError string
  | AssertionError string
  | KeyError string
  | AttributeError
  | TypeError
  | OSError
  | ApiError string

text \<open>\<^verbatim>\<open>d.get(k)\<close>: \<^verbatim>\<open>None\<close> for a missing key and for a null value.\<close>

fun get :: "'a field \<Rightarrow> 'a option" where
  "get Absent = None"
| "get Null = None"
| "get (Present v) = Some v"

text \<open>\<^verbatim>\<open>d.get(k, default)\<close>: the default replaces a missing key only; a null value
  is returned as \<^verbatim>\<open>None\<close>.\<close>

fun get_default :: "'a field \<Rightarrow> 'a \<Rightarrow> 'a option" where
  "get_default Absent d = Some d"
| "get_default Null d = None"
| "get_default (Present v) d = Some v"

text \<open>\<^verbatim>\<open>d[k]\<close>: a missing key raises \<^verbatim>\<open>KeyError\<close>.\<close>

fun subscript :: "'a field \<Rightarrow> string \<Rightarrow> py_error + 'a option" where
  "subscript Absent k = Inl (KeyError k)"
| "subscript Null k = Inr None"
| "subscript (Present v) k = Inr (Some v)"

subsection \<open>Formatting\<close>

definition quote :: char where
  "quote = CHR 0x27"

definition newline :: char where
  "newline = CHR 0x0A"

definition digit_char :: "nat \<Rightarrow> char" where
  "digit_char d = ''0123456789'' ! d"

text \<open>\<^verbatim>\<open>str(n)\<close> of a Python integer: decimal digits, a minus sign when negative.\<close>

fun str_nat :: "nat \<Rightarrow> string" where
  "str_nat n = (if n < 10 then [digit_char n] else str_nat (n div 10) @ [digit_char (n mod 10)])"

declare str_nat.simps [simp del]

definition str_int :: "int \<Rightarrow> string" where
  "str_int i = (if i < 0 then CHR ''-'' # str_nat (nat (- i)) else str_nat (nat i))"

text \<open>How an f-string renders a value that may be \<^verbatim>\<open>None\<close>.\<close>

fun fmt_str :: "string option \<Rightarrow> string" where
  "fmt_str None = ''None''"
| "fmt_str (Some s) = s"

fun fmt_int :: "int option \<Rightarrow> string" where
  "fmt_int None = ''None''"
| "fmt_int (Some n) = str_int n"

section \<open>Provider dictionaries\<close>

text \<open>
  The keys the CLI reads from a pod dictionary, each with the type the provider documents
  for it: strings, an integer port, a boolean flag, nested dictionaries and a list of
  port bindings. Any key may be missing or null; a value of another JSON type is outside
  the model. The field names carry a prefix because several keys (\<^verbatim>\<open>name\<close>,
  \<^verbatim>\<open>runtime\<close>, \<^verbatim>\<open>ip\<close>) are also parameter names of the CLI's methods.
\<close>

record port_binding =
  pb_isIpPublic :: "bool field"
  pb_ip :: "string field"
  pb_publicPort :: "int field"

record runtime_info =
  rt_ports :: "port_binding list field"

record machine_info =
  m_gpuDisplayName :: "string field"
  m_podHostId :: "string field"

record pod =
  pod_id :: "string field"
  pod_name :: "string field"
  pod_machine :: "machine_info field"
  pod_desiredStatus :: "string field"
  pod_runtime :: "runtime_info field"

text \<open>The empty dictionary \<^verbatim>\<open>{}\<close> used as a default.\<close>

definition empty_machine :: machine_info where
  "empty_machine = \<lparr>m_gpuDisplayName = Absent, m_podHostId = Absent\<rparr>"

definition empty_runtime :: runtime_info where
  "empty_runtime = \<lparr>rt_ports = Absent\<rparr>"

text \<open>The keyword arguments of \<^verbatim>\<open>runpod.create_pod\<close> as \<^verbatim>\<open>create_pod\<close> passes them.\<close>

record launch_spec =
  ls_name :: string
  ls_image_name :: string
  ls_gpu_type_id :: string
  ls_cloud_type :: string
  ls_gpu_count :: int
  ls_volume_in_gb :: int
  ls_container_disk_in_gb :: int
  ls_min_vcpu_count :: int
  ls_min_memory_in_gb :: int
  ls_docker_args :: string
  ls_env :: "(string \<times> string) list option"
  ls_ports :: string
  ls_volume_mount_path :: string
  ls_network_volume_id :: string

text \<open>The parameters of the method \<^verbatim>\<open>create_pod\<close> (prefixed \<open>opt_\<close>).\<close>

record create_args =
  opt_name :: string
  opt_image_name :: string
  opt_gpu_type :: string
  opt_cloud_type :: string
  opt_gpu_count :: int
  opt_volume_in_gb :: int
  opt_min_vcpu_count :: int
  opt_min_memory_in_gb :: int
  opt_container_disk_in_gb :: int
  opt_args :: string
  opt_volume_mount_path :: string
  opt_env :: "(string \<times> string) list option"
  opt_runtime :: int
  opt_update_ssh_config :: bool
  opt_forward_agent :: bool
  opt_network_volume_id :: string

definition default_create_args :: create_args where
  "default_create_args =
     \<lparr>opt_name = ''test'',
      opt_image_name = ''runpod/pytorch:2.4.0-py3.11-cuda12.4.1-devel-ubuntu22.04'',
      opt_gpu_type = ''NVIDIA A40'',
      opt_cloud_type = ''SECURE'',
      opt_gpu_count = 1,
      opt_volume_in_gb = 10,
      opt_min_vcpu_count = 1,
      opt_min_memory_in_gb = 1,
      opt_container_disk_in_gb = 30,
      opt_args = [],
      opt_volume_mount_path = ''/ssd'',
      opt_env = None,
      opt_runtime = 120,
      opt_update_ssh_config = True,
      opt_forward_agent = False,
      opt_network_volume_id = ''t3uq90cdfb''\<rparr>"

section \<open>Effects: the process state and the provider\<close>

text \<open>
  Everything the CLI does to the outside is recorded, in order, in a trace: lines printed,
  calls to the provider client, sleeps and file writes.
\<close>

datatype event =
    Print string
  | PrintFullData pod
  | CreatePodCall launch_spec
  | GetPodCall "string option"
  | GetPodsCall
  | TerminatePodCall string
  | Sleep nat
  | WriteText string

record state =
  environ :: "string \<rightharpoonup> string"
  dotenv_file :: "string \<rightharpoonup> string"
  self_api_key :: "string option"
  runpod_api_key :: "string option"
  pod_host_ids :: "string option \<rightharpoonup> string"
  trace :: "event list"
  get_pod_calls :: nat
  ssh_dir_writable :: bool
  runpod_config :: "string option"

text \<open>
  The provider client (the \<^verbatim>\<open>runpod\<close> package) is outside the repository. Each of its
  four operations returns a value (a pod dictionary, a list of them, a termination result
  as it prints) or raises; the answer to \<^verbatim>\<open>get_pod\<close> may change from one call to the
  next, so it depends on how many calls were made before.
\<close>

record provider =
  on_create_pod :: "launch_spec \<Rightarrow> py_error + pod"
  on_get_pod :: "nat \<Rightarrow> string option \<Rightarrow> py_error + pod"
  on_get_pods :: "py_error + pod list"
  on_terminate_pod :: "string \<Rightarrow> py_error + string"

type_synonym 'a prog = "state \<Rightarrow> (py_error + 'a) \<times> state"

definition succeed :: "'a \<Rightarrow> 'a prog" where
  "succeed x s = (Inr x, s)"

definition raise :: "py_error \<Rightarrow> 'a prog" where
  "raise e s = (Inl e, s)"

definition lift :: "py_error + 'a \<Rightarrow> 'a prog" where
  "lift r s = (r, s)"

text \<open>Sequencing: an exception ends the run, keeping the effects made so far.\<close>

definition seq :: "'a prog \<Rightarrow> ('a \<Rightarrow> 'b prog) \<Rightarrow> 'b prog" where
  "seq m f s = (case m s of (Inl e, s1) \<Rightarrow> (Inl e, s1) | (Inr x, s1) \<Rightarrow> f x s1)"

fun block :: "unit prog list \<Rightarrow> unit prog" where
  "block [] = succeed ()"
| "block (m # ms) = seq m (\<lambda>_. block ms)"

definition emit :: "event \<Rightarrow> state \<Rightarrow> state" where
  "emit e s = s\<lparr>trace := trace s @ [e]\<rparr>"

definition py_print :: "string \<Rightarrow> unit prog" where
  "py_print line s = (Inr (), emit (Print line) s)"

text \<open>\<^verbatim>\<open>assert c, msg\<close>, the interpreter running without \<^verbatim>\<open>-O\<close>.\<close>

definition py_assert :: "bool \<Rightarrow> string \<Rightarrow> unit prog" where
  "py_assert c msg = (if c then succeed () else raise (AssertionError msg))"

definition time_sleep :: "nat \<Rightarrow> unit prog" where
  "time_sleep secs s = (Inr (), emit (Sleep secs) s)"

definition runpod_create_pod :: "provider \<Rightarrow> launch_spec \<Rightarrow> pod prog" where
  "runpod_create_pod P spec s = (on_create_pod P spec, emit (CreatePodCall spec) s)"

definition runpod_get_pod :: "provider \<Rightarrow> string option \<Rightarrow> pod prog" where
  "runpod_get_pod P pid s =
     (on_get_pod P (get_pod_calls s) pid,
      emit (GetPodCall pid) (s\<lparr>get_pod_calls := get_pod_calls s + 1\<rparr>))"

definition runpod_get_pods :: "provider \<Rightarrow> pod list prog" where
  "runpod_get_pods P s = (on_get_pods P, emit GetPodsCall s)"

definition runpod_terminate_pod :: "provider \<Rightarrow> string \<Rightarrow> string prog" where
  "runpod_terminate_pod P pid s = (on_terminate_pod P pid, emit (TerminatePodCall pid) s)"

text \<open>\<^verbatim>\<open>Path.home().joinpath(".ssh", "runpod_config").write_text(text)\<close>: the file is opened
  for writing, which truncates it, and \<open>text\<close> becomes its whole content. Opening fails
  when the directory is missing or not writable.\<close>

definition write_text :: "string \<Rightarrow> unit prog" where
  "write_text text s =
     (if ssh_dir_writable s then (Inr (), emit (WriteText text) (s\<lparr>runpod_config := Some text\<rparr>))
      else (Inl OSError, s))"

section \<open>\<^verbatim>\<open>RunPodManager.__init__\<close> (lines 62--78)\<close>

text \<open>\<^verbatim>\<open>load_dotenv(override=True)\<close>: the variables of the \<^verbatim>\<open>.env\<close> file replace those of
  the process environment.\<close>

definition load_dotenv :: "unit prog" where
  "load_dotenv s = (Inr (), s\<lparr>environ := environ s ++ dotenv_file s\<rparr>)"

definition os_getenv :: "string \<Rightarrow> string option prog" where
  "os_getenv k s = (Inr (environ s k), s)"

text \<open>Truth value of a string that may be \<^verbatim>\<open>None\<close>: false for \<^verbatim>\<open>None\<close> and for \<^verbatim>\<open>""\<close>.\<close>

fun truthy :: "string option \<Rightarrow> bool" where
  "truthy None = False"
| "truthy (Some v) = (v \<noteq> [])"

definition init :: "unit prog" where
  "init =
     seq load_dotenv (\<lambda>_.
     seq (os_getenv ''RUNPOD_API_KEY'') (\<lambda>key.
     seq (\<lambda>s. (Inr (), s\<lparr>self_api_key := key\<rparr>)) (\<lambda>_.
     if \<not> truthy key then
       raise (ValueError ''RUNPOD_API_KEY not found in environment. Set it in your .env file.'')
     else
       seq (\<lambda>s. (Inr (), s\<lparr>runpod_api_key := key\<rparr>)) (\<lambda>_.
       (\<lambda>s. (Inr (), s\<lparr>pod_host_ids := Map.empty\<rparr>))))))"

section \<open>\<^verbatim>\<open>list_pods\<close> and \<^verbatim>\<open>get_pod\<close> (lines 80--123)\<close>

text \<open>\<^verbatim>\<open>pod.get('machine', {}).get(key)\<close>: a null \<^verbatim>\<open>machine\<close> has no \<^verbatim>\<open>get\<close>.\<close>

definition machine_get :: "pod \<Rightarrow> (machine_info \<Rightarrow> string field) \<Rightarrow> py_error + string option" where
  "machine_get p key =
     (case get_default (pod_machine p) empty_machine of
        None \<Rightarrow> Inl AttributeError
      | Some m \<Rightarrow> Inr (get (key m)))"

text \<open>\<^verbatim>\<open>[i for i in ports if i["isIpPublic"]]\<close>: a binding without the key raises
  \<^verbatim>\<open>KeyError\<close>; a null flag is false.\<close>

fun public_bindings :: "port_binding list \<Rightarrow> py_error + port_binding list" where
  "public_bindings [] = Inr []"
| "public_bindings (b # bs) =
     (case subscript (pb_isIpPublic b) ''isIpPublic'' of
        Inl e \<Rightarrow> Inl e
      | Inr flag \<Rightarrow>
          (case public_bindings bs of
             Inl e \<Rightarrow> Inl e
           | Inr r \<Rightarrow> Inr (if flag = Some True then b # r else r)))"

text \<open>\<^verbatim>\<open>[i for i in pod.get("runtime", {}).get("ports", []) if i["isIpPublic"]]\<close>:
  a null \<^verbatim>\<open>runtime\<close> has no \<^verbatim>\<open>get\<close>, a null \<^verbatim>\<open>ports\<close> cannot be iterated.\<close>

definition listed_public_ip :: "pod \<Rightarrow> py_error + port_binding list" where
  "listed_public_ip p =
     (case get_default (pod_runtime p) empty_runtime of
        None \<Rightarrow> Inl AttributeError
      | Some rt \<Rightarrow>
          (case get_default (rt_ports rt) [] of
             None \<Rightarrow> Inl TypeError
           | Some ps \<Rightarrow> public_bindings ps))"

text \<open>The body of the loop of \<^verbatim>\<open>list_pods\<close> for the pod at index \<open>i\<close> (lines 90--99).\<close>

definition list_pods_body :: "nat \<Rightarrow> pod \<Rightarrow> unit prog" where
  "list_pods_body i p =
     seq (py_print (''Pod '' @ str_int (int i + 1) @ '':'')) (\<lambda>_.
     seq (py_print (''  ID: '' @ fmt_str (get (pod_id p)))) (\<lambda>_.
     seq (py_print (''  Name: '' @ fmt_str (get (pod_name p)))) (\<lambda>_.
     seq (lift (machine_get p m_gpuDisplayName)) (\<lambda>gpu.
     seq (py_print (''  Machine Type: '' @ fmt_str gpu)) (\<lambda>_.
     seq (py_print (''  Status: '' @ fmt_str (get (pod_desiredStatus p)))) (\<lambda>_.
     seq (lift (listed_public_ip p)) (\<lambda>public_ip.
     seq (py_assert (length public_ip = 1) []) (\<lambda>_.
     seq (py_print (''  Public IP: '' @ fmt_str (get (pb_ip (public_ip ! 0))))) (\<lambda>_.
     seq (py_print (''  Public port: '' @ fmt_int (get (pb_publicPort (public_ip ! 0))))) (\<lambda>_.
     py_print []))))))))))"

fun list_pods_loop :: "nat \<Rightarrow> pod list \<Rightarrow> unit prog" where
  "list_pods_loop i [] = succeed ()"
| "list_pods_loop i (p # ps) = seq (list_pods_body i p) (\<lambda>_. list_pods_loop (i + 1) ps)"

definition list_pods :: "provider \<Rightarrow> unit prog" where
  "list_pods P = seq (runpod_get_pods P) (\<lambda>pods. list_pods_loop 0 pods)"

definition get_pod :: "provider \<Rightarrow> string \<Rightarrow> unit prog" where
  "get_pod P pid =
     seq (runpod_get_pod P (Some pid)) (\<lambda>p.
     seq (py_print ''Pod Details:'') (\<lambda>_.
     seq (py_print (''  ID: '' @ fmt_str (get (pod_id p)))) (\<lambda>_.
     seq (py_print (''  Name: '' @ fmt_str (get (pod_name p)))) (\<lambda>_.
     seq (lift (machine_get p m_gpuDisplayName)) (\<lambda>gpu.
     seq (py_print (''  Machine Type: '' @ fmt_str gpu)) (\<lambda>_.
     seq (py_print (''  Status: '' @ fmt_str (get (pod_desiredStatus p)))) (\<lambda>_.
     seq (lift (machine_get p m_podHostId)) (\<lambda>host.
     seq (py_print (''  Pod Host ID: '' @ fmt_str host)) (\<lambda>_.
     seq (lift (listed_public_ip p)) (\<lambda>public_ip.
     seq (py_assert (length public_ip = 1) []) (\<lambda>_.
     seq (py_print (''  Public IP: '' @ fmt_str (get (pb_ip (public_ip ! 0))))) (\<lambda>_.
     seq (py_print (''  Public port: '' @ fmt_int (get (pb_publicPort (public_ip ! 0))))) (\<lambda>_.
     (\<lambda>s. (Inr (), emit (PrintFullData p) s)))))))))))))))"

section \<open>\<^verbatim>\<open>generate_ssh_config\<close> (lines 125--145)\<close>

text \<open>\<^verbatim>\<open>text.split(c)\<close> and \<^verbatim>\<open>c.join(lines)\<close> for a one-character separator.\<close>

fun split_on :: "char \<Rightarrow> string \<Rightarrow> string list" where
  "split_on c [] = [[]]"
| "split_on c (x # xs) =
     (if x = c then [] # split_on c xs
      else (case split_on c xs of [] \<Rightarrow> [[x]] | l # ls \<Rightarrow> (x # l) # ls))"

fun join_on :: "char \<Rightarrow> string list \<Rightarrow> string" where
  "join_on c [] = []"
| "join_on c [l] = l"
| "join_on c (l # m # ls) = l @ c # join_on c (m # ls)"

text \<open>
  \<^verbatim>\<open>textwrap.dedent\<close>: lines made of spaces and tabs only become empty; the margin is the
  longest common prefix of the leading spaces and tabs of the other non-empty lines; it is
  removed from every line that starts with it.
\<close>

definition is_blank :: "char \<Rightarrow> bool" where
  "is_blank c = (c = CHR '' '' \<or> c = CHR 0x09)"

fun common_prefix :: "string \<Rightarrow> string \<Rightarrow> string" where
  "common_prefix (x # xs) (y # ys) = (if x = y then x # common_prefix xs ys else [])"
| "common_prefix xs ys = []"

fun margin_of :: "string list \<Rightarrow> string option" where
  "margin_of [] = None"
| "margin_of (i # is) = (case margin_of is of None \<Rightarrow> Some i | Some m \<Rightarrow> Some (common_prefix i m))"

definition strip_margin :: "string \<Rightarrow> string \<Rightarrow> string" where
  "strip_margin m l = (if take (length m) l = m then drop (length m) l else l)"

definition dedent :: "string \<Rightarrow> string" where
  "dedent text =
     (let lines1 = map (\<lambda>l. if list_all is_blank l then [] else l) (split_on newline text);
          indents = map (takeWhile is_blank) (filter (\<lambda>l. l \<noteq> []) lines1)
      in case margin_of indents of
           None \<Rightarrow> join_on newline lines1
         | Some m \<Rightarrow> join_on newline (map (strip_margin m) lines1))"

text \<open>\<^verbatim>\<open>str.strip()\<close> on ASCII text: white space is removed from both ends.\<close>

definition is_space :: "char \<Rightarrow> bool" where
  "is_space c = (c \<in> set [CHR 0x09, CHR 0x0A, CHR 0x0B, CHR 0x0C, CHR 0x0D,
                           CHR 0x1C, CHR 0x1D, CHR 0x1E, CHR 0x1F, CHR 0x20])"

definition strip :: "string \<Rightarrow> string" where
  "strip s = rev (dropWhile is_space (rev (dropWhile is_space s)))"

definition spaces :: "nat \<Rightarrow> string" where
  "spaces n = replicate n (CHR '' '')"

definition generate_ssh_config :: "string option \<Rightarrow> int option \<Rightarrow> string \<Rightarrow> bool \<Rightarrow> string" where
  "generate_ssh_config ip port user forward_agent =
     strip (dedent
       ([newline] @
        spaces 12 @ ''Host runpod'' @ [newline] @
        spaces 14 @ ''HostName '' @ fmt_str ip @ [newline] @
        spaces 14 @ ''User '' @ user @ [newline] @
        spaces 14 @ ''Port '' @ fmt_int port @ [newline] @
        spaces 14 @ (if forward_agent then ''ForwardAgent yes'' else []) @ [newline] @
        spaces 8))"

section \<open>\<^verbatim>\<open>create_pod\<close> (lines 147--267)\<close>

subsection \<open>The startup command (lines 198--205)\<close>

text \<open>
  \<^verbatim>\<open>args = f" {args};" if args else ""\<close>
  \<^verbatim>\<open>args = (f"/bin/bash -c '{volume_mount_path}/start.sh;{args} sleep {max(runtime * 60, 20)}; "\<close>
  \<^verbatim>\<open>        f"{volume_mount_path}/terminate.sh'")\<close>
\<close>

definition startup_command :: "string \<Rightarrow> string \<Rightarrow> int \<Rightarrow> string" where
  "startup_command volume_mount_path args runtime =
     (let args1 = (if args \<noteq> [] then '' '' @ args @ '';'' else [])
      in ''/bin/bash -c '' @ [quote] @ volume_mount_path @ ''/start.sh;'' @ args1 @
         '' sleep '' @ str_int (max (runtime * 60) 20) @ ''; '' @
         volume_mount_path @ ''/terminate.sh'' @ [quote])"

subsection \<open>Announcing and requesting the pod (lines 189--234)\<close>

definition store_pod_host_id :: "string option \<Rightarrow> string \<Rightarrow> unit prog" where
  "store_pod_host_id pid host s = (Inr (), s\<lparr>pod_host_ids := (pod_host_ids s)(pid \<mapsto> host)\<rparr>)"

definition launch :: "provider \<Rightarrow> create_args \<Rightarrow> (string option \<times> string option) prog" where
  "launch P a =
     seq (block
       [py_print ''Creating pod with:'',
        py_print (''  Name: '' @ opt_name a),
        py_print (''  Image: '' @ opt_image_name a),
        py_print (''  GPU Type: '' @ opt_gpu_type a),
        py_print (''  Cloud Type: '' @ opt_cloud_type a),
        py_print (''  GPU Count: '' @ str_int (opt_gpu_count a)),
        py_print (''  Time limit: '' @ str_int (opt_runtime a) @ '' minutes''),
        py_print (''  Network volume ID: '' @ opt_network_volume_id a)]) (\<lambda>_.
     let args = startup_command (opt_volume_mount_path a) (opt_args a) (opt_runtime a) in
     seq (py_print (''  Pod start command: '' @ args)) (\<lambda>_.
     seq (runpod_create_pod P
            \<lparr>ls_name = opt_name a,
             ls_image_name = opt_image_name a,
             ls_gpu_type_id = opt_gpu_type a,
             ls_cloud_type = opt_cloud_type a,
             ls_gpu_count = opt_gpu_count a,
             ls_volume_in_gb = opt_volume_in_gb a,
             ls_container_disk_in_gb = opt_container_disk_in_gb a,
             ls_min_vcpu_count = opt_min_vcpu_count a,
             ls_min_memory_in_gb = opt_min_memory_in_gb a,
             ls_docker_args = args,
             ls_env = opt_env a,
             ls_ports = ''8888/http,22/tcp'',
             ls_volume_mount_path = opt_volume_mount_path a,
             ls_network_volume_id = opt_network_volume_id a\<rparr>) (\<lambda>p.
     let pid = get (pod_id p) in
     seq (lift (machine_get p m_podHostId)) (\<lambda>pod_host_id.
     seq (case pod_host_id of
            None \<Rightarrow> succeed ()
          | Some host \<Rightarrow> if host \<noteq> [] then store_pod_host_id pid host else succeed ()) (\<lambda>_.
     seq (block
       [py_print ''Pod created:'',
        py_print (''  Instance ID: '' @ fmt_str pid),
        py_print (''  Pod Host ID: '' @ fmt_str pod_host_id),
        py_print ''  Provisioning...'']) (\<lambda>_.
     succeed (pid, pod_host_id)))))))"

subsection \<open>The provisioning wait (lines 236--248)\<close>

definition n_attempts :: nat where
  "n_attempts = 36"

text \<open>\<^verbatim>\<open>runtime = pod.get("runtime"); runtime is None or not runtime.get("ports")\<close>\<close>

definition pending :: "pod \<Rightarrow> bool" where
  "pending p =
     (case get (pod_runtime p) of
        None \<Rightarrow> True
      | Some rt \<Rightarrow> (case get (rt_ports rt) of None \<Rightarrow> True | Some ps \<Rightarrow> ps = []))"

text \<open>The \<^verbatim>\<open>while True\<close> loop; \<open>i\<close> is the loop's counter, 1 at the start.\<close>

function provisioning_wait :: "provider \<Rightarrow> string option \<Rightarrow> nat \<Rightarrow> pod prog" where
  "provisioning_wait P pid i s =
     (case runpod_get_pod P pid s of
        (Inl e, s1) \<Rightarrow> (Inl e, s1)
      | (Inr p, s1) \<Rightarrow>
          if pending p then
            if i > n_attempts then (Inl (RuntimeError ''Pod provisioning failed''), s1)
            else provisioning_wait P pid (i + 1) (snd (time_sleep 5 s1))
          else (Inr p, s1))"
  by pat_completeness auto
termination
  by (relation "measure (\<lambda>(P, pid, i, s). Suc n_attempts - i)") auto

declare provisioning_wait.simps [simp del]

subsection \<open>Presenting the connection (lines 250--267)\<close>

text \<open>\<^verbatim>\<open>[i for i in pod["runtime"]["ports"] if i["isIpPublic"]]\<close>\<close>

definition ready_public_ip :: "pod \<Rightarrow> py_error + port_binding list" where
  "ready_public_ip p =
     (case subscript (pod_runtime p) ''runtime'' of
        Inl e \<Rightarrow> Inl e
      | Inr None \<Rightarrow> Inl TypeError
      | Inr (Some rt) \<Rightarrow>
          (case subscript (rt_ports rt) ''ports'' of
             Inl e \<Rightarrow> Inl e
           | Inr None \<Rightarrow> Inl TypeError
           | Inr (Some ps) \<Rightarrow> public_bindings ps))"

definition present_result :: "create_args \<Rightarrow> string option \<Rightarrow> pod \<Rightarrow> unit prog" where
  "present_result a pod_host_id p =
     seq (py_print ''  Pod provisioned'') (\<lambda>_.
     seq (lift (ready_public_ip p)) (\<lambda>public_ip.
     seq (py_assert (length public_ip = 1)
            (''Expected 1 public IP, got '' @ str_int (int (length public_ip)))) (\<lambda>_.
     let ip = get (pb_ip (public_ip ! 0));
         port = get (pb_publicPort (public_ip ! 0)) in
     seq (block
       [py_print (''  Public IP: '' @ fmt_str ip),
        py_print (''  Public port: '' @ fmt_int port),
        py_print (''  basic SSH command:'' @ [newline] @ ''ssh '' @ fmt_str pod_host_id @ ''@ssh.runpod.io''),
        py_print (''  full SSH command:'' @ [newline] @ ''ssh root@'' @ fmt_str ip @ '' -p '' @ fmt_int port)]) (\<lambda>_.
     if opt_update_ssh_config a then
       seq (write_text (generate_ssh_config ip port ''root'' (opt_forward_agent a))) (\<lambda>_.
       py_print ''SSH config updated'')
     else succeed ()))))"

definition create_pod :: "provider \<Rightarrow> create_args \<Rightarrow> unit prog" where
  "create_pod P a =
     seq (launch P a) (\<lambda>(pid, pod_host_id).
     seq (provisioning_wait P pid 1) (\<lambda>p.
     present_result a pod_host_id p))"

section \<open>\<^verbatim>\<open>terminate_pod\<close> (lines 269--281) and the entry point\<close>

definition terminate_pod :: "provider \<Rightarrow> string \<Rightarrow> unit prog" where
  "terminate_pod P pid =
     seq (py_print (''Terminating pod '' @ pid @ ''...'')) (\<lambda>_.
     seq (runpod_terminate_pod P pid) (\<lambda>result.
     py_print (''Pod terminated: '' @ result)))"

datatype command =
    List_pods
  | Get_pod string
  | Create_pod create_args
  | Terminate_pod string

text \<open>\<^verbatim>\<open>fire.Fire(RunPodManager)\<close>: the manager is constructed, then the method named on
  the command line is called on it.\<close>

definition main :: "provider \<Rightarrow> command \<Rightarrow> unit prog" where
  "main P c =
     seq init (\<lambda>_.
       case c of
         List_pods \<Rightarrow> list_pods P
       | Get_pod pid \<Rightarrow> get_pod P pid
       | Create_pod a \<Rightarrow> create_pod P a
       | Terminate_pod pid \<Rightarrow> terminate_pod P pid)"

section \<open>Notions used to state the properties\<close>

text \<open>Reading a decimal numeral back, to say which number a rendered integer denotes.\<close>

definition digit_val :: "char \<Rightarrow> nat option" where
  "digit_val c = (let n = (of_char c :: nat) in if 48 \<le> n \<and> n \<le> 57 then Some (n - 48) else None)"





text \<open>The answers of the provider to the polls of one wait, and the trace and state
  that \<open>m\<close> failed checks leave behind.\<close>

definition pending_at :: "provider \<Rightarrow> string option \<Rightarrow> nat \<Rightarrow> bool" where
  "pending_at P pid k = (case on_get_pod P k pid of Inl e \<Rightarrow> False | Inr p \<Rightarrow> pending p)"

definition failed_checks :: "string option \<Rightarrow> nat \<Rightarrow> event list" where
  "failed_checks pid m = concat (replicate m [GetPodCall pid, Sleep 5])"

definition after_checks :: "string option \<Rightarrow> nat \<Rightarrow> state \<Rightarrow> state" where
  "after_checks pid m s =
     s\<lparr>trace := trace s @ failed_checks pid m, get_pod_calls := get_pod_calls s + m\<rparr>"

definition polled :: "string option \<Rightarrow> state \<Rightarrow> state" where
  "polled pid s = s\<lparr>trace := trace s @ [GetPodCall pid], get_pod_calls := get_pod_calls s + 1\<rparr>"

text \<open>The termination calls of a trace; a program keeps a part \<open>f\<close> of the state when
  no run of it changes that part.\<close>

fun terminate_calls :: "event list \<Rightarrow> string list" where
  "terminate_calls [] = []"
| "terminate_calls (TerminatePodCall pid # es) = pid # terminate_calls es"
| "terminate_calls (e # es) = terminate_calls es"

definition terminated :: "state \<Rightarrow> string list" where
  "terminated s = terminate_calls (trace s)"

definition keeps :: "(state \<Rightarrow> 'b) \<Rightarrow> 'a prog \<Rightarrow> bool" where
  "keeps f m = (\<forall>s. f (snd (m s)) = f s)"

text \<open>The bindings of a pod, those flagged public, and the lines printed for one.\<close>

definition is_public :: "port_binding \<Rightarrow> bool" where
  "is_public b = (pb_isIpPublic b = Present True)"

definition flag_missing :: "port_binding \<Rightarrow> bool" where
  "flag_missing b = (pb_isIpPublic b = Absent)"

definition ports_of :: "pod \<Rightarrow> port_binding list" where
  "ports_of p =
     (case pod_runtime p of
        Present rt \<Rightarrow> (case rt_ports rt of Present ps \<Rightarrow> ps | Null \<Rightarrow> [] | Absent \<Rightarrow> [])
      | Null \<Rightarrow> []
      | Absent \<Rightarrow> [])"

definition connection_lines :: "string option \<Rightarrow> port_binding \<Rightarrow> event list" where
  "connection_lines h b =
     [Print ''  Pod provisioned'',
      Print (''  Public IP: '' @ fmt_str (get (pb_ip b))),
      Print (''  Public port: '' @ fmt_int (get (pb_publicPort b))),
      Print (''  basic SSH command:'' @ [newline] @ ''ssh '' @ fmt_str h @ ''@ssh.runpod.io''),
      Print (''  full SSH command:'' @ [newline] @ ''ssh root@'' @ fmt_str (get (pb_ip b)) @
             '' -p '' @ fmt_int (get (pb_publicPort b)))]"

text \<open>The lines of the SSH configuration.\<close>

definition ssh_config_lines :: "string option \<Rightarrow> int option \<Rightarrow> string \<Rightarrow> bool \<Rightarrow> string list" where
  "ssh_config_lines ip port user forward_agent =
     [''Host runpod'', ''  HostName '' @ fmt_str ip, ''  User '' @ user, ''  Port '' @ fmt_int port] @
     (if forward_agent then [''  ForwardAgent yes''] else [])"

text \<open>The credential is missing when, after \<^verbatim>\<open>load_dotenv\<close>, the variable is unset or empty.\<close>

definition token_missing :: "state \<Rightarrow> bool" where
  "token_missing s = (\<not> truthy ((environ s ++ dotenv_file s) ''RUNPOD_API_KEY''))"

text \<open>A pod that has no \<^verbatim>\<open>runtime\<close> key, or whose runtime has no \<^verbatim>\<open>ports\<close> key or a port
  collection in which every binding carries the flag and none is public.\<close>

definition no_public :: "pod \<Rightarrow> bool" where
  "no_public p =
     (case pod_runtime p of
        Absent \<Rightarrow> True
      | Null \<Rightarrow> False
      | Present rt \<Rightarrow>
          (case rt_ports rt of
             Absent \<Rightarrow> True
           | Null \<Rightarrow> False
           | Present ps \<Rightarrow> \<not> list_ex flag_missing ps \<and> filter is_public ps = []))"

text \<open>A pod that the loop body of \<^verbatim>\<open>list_pods\<close> prints in full: its machine is not null and
  exactly one public binding is found.\<close>

definition displayable :: "pod \<Rightarrow> bool" where
  "displayable q =
     (case machine_get q m_gpuDisplayName of
        Inl e \<Rightarrow> False
      | Inr gpu \<Rightarrow> (case listed_public_ip q of Inl e \<Rightarrow> False | Inr bs \<Rightarrow> length bs = 1))"

section \<open>Example inputs\<close>

text \<open>A pod as the provider reports it while provisioning and once it runs, a provider
  whose first \<open>k\<close> answers to \<^verbatim>\<open>get_pod\<close> are the provisioning pod, and a process state.\<close>

definition example_pending :: pod where
  "example_pending =
     \<lparr>pod_id = Present ''p1'', pod_name = Present ''t'',
      pod_machine = Present \<lparr>m_gpuDisplayName = Present ''NVIDIA A40'', m_podHostId = Present ''h1''\<rparr>,
      pod_desiredStatus = Present ''RUNNING'', pod_runtime = Null\<rparr>"

definition example_private :: port_binding where
  "example_private = \<lparr>pb_isIpPublic = Present False, pb_ip = Present ''10.0.0.7'', pb_publicPort = Present 60123\<rparr>"

definition example_public :: port_binding where
  "example_public = \<lparr>pb_isIpPublic = Present True, pb_ip = Present ''1.2.3.4'', pb_publicPort = Present 40022\<rparr>"

definition example_ports :: "port_binding list" where
  "example_ports = [example_private, example_public]"

definition example_pod :: "port_binding list \<Rightarrow> pod" where
  "example_pod ps = example_pending\<lparr>pod_runtime := Present \<lparr>rt_ports = Present ps\<rparr>\<rparr>"

definition example_ready :: pod where
  "example_ready = example_pod example_ports"

definition example_provider_with :: "nat \<Rightarrow> pod \<Rightarrow> provider" where
  "example_provider_with k p =
     \<lparr>on_create_pod = (\<lambda>spec. Inr example_pending),
      on_get_pod = (\<lambda>n pid. if n < k then Inr example_pending else Inr p),
      on_get_pods = Inr [example_ready, p],
      on_terminate_pod = (\<lambda>pid. Inr ''{}'')\<rparr>"

definition example_provider :: "nat \<Rightarrow> provider" where
  "example_provider k = example_provider_with k example_ready"

definition example_state :: state where
  "example_state =
     \<lparr>environ = [''RUNPOD_API_KEY'' \<mapsto> ''secret''], dotenv_file = Map.empty,
      self_api_key = None, runpod_api_key = None, pod_host_ids = Map.empty,
      trace = [], get_pod_calls = 0, ssh_dir_writable = True,
      runpod_config = Some ''Host old''\<rparr>"

text \<open>The same state with no credential in the environment, and a pod that has not been
  scheduled yet, its dictionary lacking the \<^verbatim>\<open>runtime\<close> key.\<close>

definition example_state_without_token :: state where
  "example_state_without_token = example_state\<lparr>environ := Map.empty\<rparr>"

definition example_unscheduled :: pod where
  "example_unscheduled = example_pending\<lparr>pod_runtime := Absent, pod_desiredStatus := Present ''CREATED''\<rparr>"

section \<open>Decimal rendering and splitting\<close>

lemma digit_char_cases: "d < 10 \<Longrightarrow> digit_char d \<in> set ''0123456789'' \<and> digit_val (digit_char d) = Some d"
proof -
  assume "d < 10"
  then have "d \<in> {0, 1, 2, 3, 4, 5, 6, 7, 8, 9}" by auto
  then show ?thesis
    by (auto simp: digit_char_def digit_val_def)
qed


lemma str_nat_nonempty: "str_nat n \<noteq> []"
  by (subst str_nat.simps) simp



lemma str_nat_digits: "set (str_nat n) \<subseteq> set ''0123456789''"
proof (induction n rule: str_nat.induct)
  case (1 n)
  show ?case
  proof (cases "n < 10")
    case True
    then show ?thesis
      using digit_char_cases [of n] by (subst str_nat.simps) simp
  next
    case False
    then have "n mod 10 < 10" by simp
    with False 1 digit_char_cases [of "n mod 10"] show ?thesis
      by (subst str_nat.simps) simp
  qed
qed

lemma split_on_nonempty: "split_on c xs \<noteq> []"
  by (induction xs) (auto split: list.splits)

lemma split_on_single: "c \<notin> set xs \<Longrightarrow> split_on c xs = [xs]"
  by (induction xs) auto

lemma split_on_append: "c \<notin> set xs \<Longrightarrow> split_on c (xs @ c # ys) = xs # split_on c ys"
  by (induction xs) auto







section \<open>The steps of the provisioning wait\<close>

lemma runpod_get_pod_run:
  "runpod_get_pod P pid s = (on_get_pod P (get_pod_calls s) pid, polled pid s)"
  by (simp add: runpod_get_pod_def polled_def emit_def)

lemma after_checks_0: "after_checks pid 0 s = s"
  by (simp add: after_checks_def failed_checks_def)

lemma after_checks_Suc:
  "after_checks pid m (snd (time_sleep 5 (polled pid s))) = after_checks pid (Suc m) s"
  by (simp add: after_checks_def failed_checks_def time_sleep_def polled_def emit_def)

lemma wait_ready_step:
  assumes "on_get_pod P (get_pod_calls s) pid = Inr p" and "\<not> pending p"
  shows "provisioning_wait P pid i s = (Inr p, polled pid s)"
  using assms by (subst provisioning_wait.simps) (simp add: runpod_get_pod_run)

lemma wait_error_step:
  assumes "on_get_pod P (get_pod_calls s) pid = Inl e"
  shows "provisioning_wait P pid i s = (Inl e, polled pid s)"
  using assms by (subst provisioning_wait.simps) (simp add: runpod_get_pod_run)

lemma wait_failed_step:
  assumes "pending_at P pid (get_pod_calls s)" and "n_attempts < i"
  shows "provisioning_wait P pid i s = (Inl (RuntimeError ''Pod provisioning failed''), polled pid s)"
  using assms
  by (subst provisioning_wait.simps)
     (auto simp: runpod_get_pod_run pending_at_def split: sum.splits)

lemma wait_pending_step:
  assumes "pending_at P pid (get_pod_calls s)" and "i \<le> n_attempts"
  shows "provisioning_wait P pid i s =
         provisioning_wait P pid (Suc i) (snd (time_sleep 5 (polled pid s)))"
  using assms
  by (subst provisioning_wait.simps)
     (auto simp: runpod_get_pod_run pending_at_def split: sum.splits)

lemma get_pod_calls_slept: "get_pod_calls (snd (time_sleep 5 (polled pid s))) = Suc (get_pod_calls s)"
  by (simp add: time_sleep_def polled_def emit_def)

lemma wait_pending_run:
  assumes "\<forall>j<m. pending_at P pid (get_pod_calls s + j)" and "i + m \<le> Suc n_attempts"
  shows "provisioning_wait P pid i s = provisioning_wait P pid (i + m) (after_checks pid m s)"
  using assms
proof (induction m arbitrary: i s)
  case 0
  then show ?case by (simp add: after_checks_0)
next
  case (Suc m)
  let ?s1 = "snd (time_sleep 5 (polled pid s))"
  from Suc.prems have first: "pending_at P pid (get_pod_calls s)" and i: "i \<le> n_attempts"
    by auto
  have rest: "\<forall>j<m. pending_at P pid (get_pod_calls ?s1 + j)"
    using Suc.prems(1) by (auto simp: get_pod_calls_slept)
  have "provisioning_wait P pid i s = provisioning_wait P pid (Suc i) ?s1"
    using first i by (rule wait_pending_step)
  also have "\<dots> = provisioning_wait P pid (Suc i + m) (after_checks pid m ?s1)"
    using rest Suc.prems(2) by (intro Suc.IH) auto
  finally show ?case by (simp add: after_checks_Suc)
qed

lemma get_pod_calls_after_checks: "get_pod_calls (after_checks pid m s) = get_pod_calls s + m"
  by (simp add: after_checks_def)

lemma wait_ready_after:
  assumes "\<forall>j<m. pending_at P pid (get_pod_calls s + j)" and "m \<le> n_attempts"
    and "on_get_pod P (get_pod_calls s + m) pid = Inr p" and "\<not> pending p"
  shows "provisioning_wait P pid 1 s = (Inr p, polled pid (after_checks pid m s))"
proof -
  have "provisioning_wait P pid 1 s = provisioning_wait P pid (1 + m) (after_checks pid m s)"
    using assms(1,2) by (intro wait_pending_run) auto
  also have "\<dots> = (Inr p, polled pid (after_checks pid m s))"
    using assms(3,4) by (intro wait_ready_step) (simp_all add: get_pod_calls_after_checks)
  finally show ?thesis .
qed

lemma wait_error_after:
  assumes "\<forall>j<m. pending_at P pid (get_pod_calls s + j)" and "m \<le> n_attempts"
    and "on_get_pod P (get_pod_calls s + m) pid = Inl e"
  shows "provisioning_wait P pid 1 s = (Inl e, polled pid (after_checks pid m s))"
proof -
  have "provisioning_wait P pid 1 s = provisioning_wait P pid (1 + m) (after_checks pid m s)"
    using assms(1,2) by (intro wait_pending_run) auto
  also have "\<dots> = (Inl e, polled pid (after_checks pid m s))"
    using assms(3) by (intro wait_error_step) (simp_all add: get_pod_calls_after_checks)
  finally show ?thesis .
qed

lemma wait_failed_after:
  assumes "\<forall>j<Suc n_attempts. pending_at P pid (get_pod_calls s + j)"
  shows "provisioning_wait P pid 1 s =
         (Inl (RuntimeError ''Pod provisioning failed''), polled pid (after_checks pid n_attempts s))"
proof -
  have "provisioning_wait P pid 1 s = provisioning_wait P pid (1 + n_attempts) (after_checks pid n_attempts s)"
    using assms by (intro wait_pending_run) auto
  also have "\<dots> = (Inl (RuntimeError ''Pod provisioning failed''), polled pid (after_checks pid n_attempts s))"
    using assms by (intro wait_failed_step) (simp_all add: get_pod_calls_after_checks)
  finally show ?thesis .
qed

section \<open>What a program leaves unchanged\<close>

lemma terminate_calls_append: "terminate_calls (xs @ ys) = terminate_calls xs @ terminate_calls ys"
  by (induction xs rule: terminate_calls.induct) auto

lemma terminate_calls_failed_checks: "terminate_calls (failed_checks pid m) = []"
  by (induction m) (auto simp: failed_checks_def)

lemma keepsI: "(\<And>s. f (snd (m s)) = f s) \<Longrightarrow> keeps f m"
  by (simp add: keeps_def)

lemma keepsD: "keeps f m \<Longrightarrow> f (snd (m s)) = f s"
  by (simp add: keeps_def)

lemma keeps_pure: "keeps f (succeed x)" "keeps f (raise e)" "keeps f (lift r)" "keeps f (py_assert c msg)"
  by (simp_all add: keeps_def succeed_def raise_def lift_def py_assert_def)

lemma keeps_terminated:
  "keeps terminated (py_print l)" "keeps terminated (time_sleep n)" "keeps terminated (write_text t)"
  "keeps terminated (runpod_get_pod P pid)" "keeps terminated (runpod_create_pod P spec)"
  "keeps terminated (store_pod_host_id pid h)"
  by (simp_all add: keeps_def terminated_def py_print_def time_sleep_def
      write_text_def runpod_get_pod_def runpod_create_pod_def store_pod_host_id_def
      emit_def terminate_calls_append)

lemma keeps_runpod_config:
  "keeps runpod_config (py_print l)" "keeps runpod_config (time_sleep n)"
  "keeps runpod_config (runpod_get_pod P pid)" "keeps runpod_config (runpod_create_pod P spec)"
  "keeps runpod_config (store_pod_host_id pid h)"
  by (simp_all add: keeps_def py_print_def time_sleep_def
      runpod_get_pod_def runpod_create_pod_def store_pod_host_id_def emit_def)

lemma keeps_ssh_dir_writable:
  "keeps ssh_dir_writable (py_print l)" "keeps ssh_dir_writable (time_sleep n)"
  "keeps ssh_dir_writable (runpod_get_pod P pid)" "keeps ssh_dir_writable (runpod_create_pod P spec)"
  "keeps ssh_dir_writable (store_pod_host_id pid h)"
  by (simp_all add: keeps_def py_print_def time_sleep_def
      runpod_get_pod_def runpod_create_pod_def store_pod_host_id_def emit_def)

lemma keeps_get_pod_calls:
  "keeps get_pod_calls (py_print l)" "keeps get_pod_calls (time_sleep n)"
  "keeps get_pod_calls (runpod_create_pod P spec)"
  "keeps get_pod_calls (store_pod_host_id pid h)"
  by (simp_all add: keeps_def py_print_def time_sleep_def
      runpod_create_pod_def store_pod_host_id_def emit_def)

lemma keeps_seq:
  assumes "keeps f m" and "\<And>x. keeps f (g x)"
  shows "keeps f (seq m g)"
proof (rule keepsI)
  fix s
  show "f (snd (seq m g s)) = f s"
  proof (cases "m s")
    case (Pair r s1)
    with keepsD [OF assms(1), of s] have s1: "f s1 = f s"
      by simp
    show ?thesis
    proof (cases r)
      case (Inl e)
      with Pair s1 show ?thesis by (simp add: seq_def)
    next
      case (Inr x)
      with Pair s1 keepsD [OF assms(2), of x s1] show ?thesis by (simp add: seq_def)
    qed
  qed
qed

lemma keeps_block: "(\<And>m. m \<in> set ms \<Longrightarrow> keeps f m) \<Longrightarrow> keeps f (block ms)"
  by (induction ms) (auto intro: keeps_seq keeps_pure)

lemma keeps_launch:
  assumes "\<And>l. keeps f (py_print l)" and "\<And>spec. keeps f (runpod_create_pod P spec)"
    and "\<And>pid h. keeps f (store_pod_host_id pid h)"
  shows "keeps f (launch P a)"
  unfolding launch_def Let_def
  by (intro keeps_seq keeps_block keeps_pure assms)
     (auto intro: keeps_pure assms split: option.splits)

lemma keeps_wait_state:
  assumes "keeps f (runpod_get_pod P pid)" and "keeps f (time_sleep 5)"
  shows "f (snd (provisioning_wait P pid i s)) = f s"
proof (induction "Suc n_attempts - i" arbitrary: i s)
  case 0
  then have over: "n_attempts < i" by simp
  have polled: "f (polled pid s) = f s"
    using keepsD [OF assms(1), of s] by (simp add: runpod_get_pod_run)
  show ?case
  proof (cases "on_get_pod P (get_pod_calls s) pid")
    case (Inl e)
    then show ?thesis
      by (simp add: wait_error_step polled)
  next
    case (Inr p)
    then show ?thesis
      using over wait_ready_step [of P s pid p i] wait_failed_step [of P pid s i]
      by (cases "pending p") (simp_all add: pending_at_def polled)
  qed
next
  case (Suc k)
  then have le: "i \<le> n_attempts" and k: "k = Suc n_attempts - Suc i" by simp_all
  have polled: "f (polled pid s) = f s"
    using keepsD [OF assms(1), of s] by (simp add: runpod_get_pod_run)
  show ?case
  proof (cases "on_get_pod P (get_pod_calls s) pid")
    case (Inl e)
    then show ?thesis
      by (simp add: wait_error_step polled)
  next
    case (Inr p)
    show ?thesis
    proof (cases "pending p")
      case False
      with Inr show ?thesis
        by (simp add: wait_ready_step polled)
    next
      case True
      with Inr have pa: "pending_at P pid (get_pod_calls s)"
        by (simp add: pending_at_def)
      have "f (snd (provisioning_wait P pid (Suc i) (snd (time_sleep 5 (polled pid s))))) =
            f (snd (time_sleep 5 (polled pid s)))"
        using k by (rule Suc.hyps(1))
      then show ?thesis
        using wait_pending_step [OF pa le] keepsD [OF assms(2), of "polled pid s"]
        by (simp add: polled)
    qed
  qed
qed

lemma keeps_wait:
  "keeps f (runpod_get_pod P pid) \<Longrightarrow> keeps f (time_sleep 5) \<Longrightarrow> keeps f (provisioning_wait P pid i)"
  by (rule keepsI) (rule keeps_wait_state)

lemma keeps_terminated_present: "keeps terminated (present_result a h p)"
  unfolding present_result_def Let_def
  by (intro keeps_seq keeps_block keeps_pure keeps_terminated)
     (auto intro: keeps_pure keeps_seq keeps_terminated)

lemma keeps_terminated_create_pod: "keeps terminated (create_pod P a)"
  unfolding create_pod_def
proof (rule keeps_seq)
  show "keeps terminated (launch P a)"
    by (rule keeps_launch) (rule keeps_terminated)+
next
  fix x :: "string option \<times> string option"
  obtain pid h where x: "x = (pid, h)" by (cases x)
  show "keeps terminated (case x of (pid, pod_host_id) \<Rightarrow>
          seq (provisioning_wait P pid 1) (present_result a pod_host_id))"
    unfolding x prod.case
    by (intro keeps_seq keeps_wait keeps_terminated_present keeps_terminated)
qed

section \<open>Running \<^verbatim>\<open>create_pod\<close>\<close>

lemma create_pod_after_launch:
  "fst (launch P a s) = Inr (pid, h) \<Longrightarrow>
   create_pod P a s = seq (provisioning_wait P pid 1) (present_result a h) (snd (launch P a s))"
  by (cases "launch P a s") (simp add: create_pod_def seq_def)

lemma seq_error: "m s = (Inl e, s1) \<Longrightarrow> seq m f s = (Inl e, s1)"
  by (simp add: seq_def)

lemma example_launch:
  "fst (launch (example_provider_with k p) default_create_args example_state) = Inr (Some ''p1'', Some ''h1'')"
  by (simp add: launch_def seq_def py_print_def succeed_def lift_def runpod_create_pod_def
      example_provider_with_def example_pending_def machine_get_def store_pod_host_id_def Let_def)

lemma launch_keeps_get_pod_calls: "get_pod_calls (snd (launch P a s)) = get_pod_calls s"
  by (rule keepsD [OF keeps_launch]) (rule keeps_get_pod_calls)+

lemma example_launch_calls:
  "get_pod_calls (snd (launch (example_provider_with k p) default_create_args example_state)) = 0"
  by (simp add: launch_keeps_get_pod_calls example_state_def)

lemma example_pending_is_pending: "pending example_pending"
  by (simp add: pending_def example_pending_def)

lemma example_pending_at:
  "n < k \<Longrightarrow> pending_at (example_provider_with k p) pid n"
  by (simp add: pending_at_def example_provider_with_def example_pending_is_pending)

lemma example_answer:
  "\<not> n < k \<Longrightarrow> on_get_pod (example_provider_with k p) n pid = Inr p"
  by (simp add: example_provider_with_def)

lemma example_ready_not_pending: "\<not> pending example_ready"
  by (simp add: pending_def example_ready_def example_pod_def example_ports_def)

section \<open>The public bindings of a pod\<close>

lemma public_bindings_filter:
  "public_bindings ps =
     (if list_ex flag_missing ps then Inl (KeyError ''isIpPublic'') else Inr (filter is_public ps))"
proof (induction ps)
  case Nil
  show ?case by simp
next
  case (Cons b bs)
  show ?case
  proof (cases "pb_isIpPublic b")
    case Absent
    then show ?thesis by (simp add: flag_missing_def)
  next
    case Null
    then have "\<not> flag_missing b" "\<not> is_public b"
      by (simp_all add: flag_missing_def is_public_def)
    with Null show ?thesis by (simp add: Cons)
  next
    case (Present f)
    then have "\<not> flag_missing b" "is_public b = f"
      by (simp_all add: flag_missing_def is_public_def)
    with Present show ?thesis by (simp add: Cons)
  qed
qed

lemma pending_iff_no_ports: "pending p \<longleftrightarrow> ports_of p = []"
  by (auto simp: pending_def ports_of_def split: field.splits)

lemma ready_public_ip_ports:
  "\<not> pending p \<Longrightarrow> ready_public_ip p = public_bindings (ports_of p)"
  by (auto simp: pending_def ports_of_def ready_public_ip_def split: field.splits)

lemma wait_returns_ready:
  "provisioning_wait P pid i s = (Inr p, s1) \<Longrightarrow> \<not> pending p"
proof (induction "Suc n_attempts - i" arbitrary: i s)
  case 0
  then have over: "n_attempts < i" by simp
  show ?case
  proof (cases "on_get_pod P (get_pod_calls s) pid")
    case (Inl e)
    with "0.prems" show ?thesis by (simp add: wait_error_step)
  next
    case (Inr q)
    with "0.prems" over wait_ready_step [of P s pid q i] wait_failed_step [of P pid s i]
    show ?thesis
      by (cases "pending q") (auto simp: pending_at_def)
  qed
next
  case (Suc k)
  then have le: "i \<le> n_attempts" and k: "k = Suc n_attempts - Suc i" by simp_all
  show ?case
  proof (cases "on_get_pod P (get_pod_calls s) pid")
    case (Inl e)
    with Suc.prems show ?thesis by (simp add: wait_error_step)
  next
    case (Inr q)
    show ?thesis
    proof (cases "pending q")
      case False
      with Inr Suc.prems show ?thesis by (simp add: wait_ready_step)
    next
      case True
      with Inr have pa: "pending_at P pid (get_pod_calls s)"
        by (simp add: pending_at_def)
      from Suc.prems wait_pending_step [OF pa le]
      have "provisioning_wait P pid (Suc i) (snd (time_sleep 5 (polled pid s))) = (Inr p, s1)"
        by simp
      with k show ?thesis by (rule Suc.hyps(1))
    qed
  qed
qed

lemma present_result_raises:
  "ready_public_ip p = Inl e \<Longrightarrow>
   present_result a h p s = (Inl e, emit (Print ''  Pod provisioned'') s)"
  by (simp add: present_result_def seq_def py_print_def lift_def)

lemma present_result_assertion:
  "ready_public_ip p = Inr bs \<Longrightarrow> length bs \<noteq> 1 \<Longrightarrow>
   present_result a h p s =
     (Inl (AssertionError (''Expected 1 public IP, got '' @ str_int (int (length bs)))),
      emit (Print ''  Pod provisioned'') s)"
  by (simp add: present_result_def seq_def py_print_def lift_def py_assert_def raise_def)

lemma present_result_one:
  assumes "ready_public_ip p = Inr [b]"
  shows "present_result a h p s =
     (let s1 = s\<lparr>trace := trace s @ connection_lines h b\<rparr>;
          config = generate_ssh_config (get (pb_ip b)) (get (pb_publicPort b)) ''root'' (opt_forward_agent a)
      in if opt_update_ssh_config a then
           if ssh_dir_writable s then
             (Inr (), s1\<lparr>trace := trace s1 @ [WriteText config, Print ''SSH config updated''],
                         runpod_config := Some config\<rparr>)
           else (Inl OSError, s1)
         else (Inr (), s1))"
  using assms
  by (simp add: present_result_def seq_def py_print_def lift_def py_assert_def succeed_def
      write_text_def emit_def connection_lines_def Let_def)

section \<open>The SSH configuration text\<close>

lemma spaces_literal:
  "spaces 8 = ''        ''" "spaces 12 = ''            ''" "spaces 14 = ''              ''"
  by (simp_all add: spaces_def numeral_eq_Suc)

lemma digit_not_space: "c \<in> set ''-0123456789None'' \<Longrightarrow> \<not> is_space c \<and> c \<noteq> newline"
  by (auto simp: is_space_def newline_def)

lemma str_nat_chars: "set (str_nat n) \<subseteq> set ''-0123456789None''"
proof -
  have "set ''0123456789'' \<subseteq> set ''-0123456789None''"
    by auto
  with str_nat_digits [of n] show ?thesis
    by (rule subset_trans)
qed

lemma str_int_chars: "set (str_int i) \<subseteq> set ''-0123456789None''"
proof (cases "i < 0")
  case True
  then have "set (str_int i) = insert (CHR ''-'') (set (str_nat (nat (- i))))"
    by (simp add: str_int_def)
  moreover have "CHR ''-'' \<in> set ''-0123456789None''"
    by simp
  ultimately show ?thesis
    using str_nat_chars [of "nat (- i)"] by (simp only: insert_subset)
next
  case False
  then have "str_int i = str_nat (nat i)"
    by (simp add: str_int_def)
  then show ?thesis
    by (simp only: str_nat_chars)
qed

lemma str_int_nonempty: "str_int i \<noteq> []"
  by (simp add: str_int_def str_nat_nonempty)

lemma fmt_int_chars: "set (fmt_int port) \<subseteq> set ''-0123456789None''"
proof (cases port)
  case None
  then show ?thesis by simp
next
  case (Some i)
  then show ?thesis using str_int_chars [of i] by simp
qed

lemma fmt_int_nonempty: "fmt_int port \<noteq> []"
  by (cases port) (simp_all add: str_int_nonempty)

lemma fmt_int_no_newline: "newline \<notin> set (fmt_int port)"
proof
  assume "newline \<in> set (fmt_int port)"
  then have "newline \<in> set ''-0123456789None''"
    using fmt_int_chars [of port] by (rule rev_subsetD)
  then show False
    using digit_not_space [of newline] by simp
qed

lemma fmt_int_last: "\<not> is_space (last (fmt_int port))"
proof -
  have "last (fmt_int port) \<in> set (fmt_int port)"
    by (simp add: fmt_int_nonempty)
  then have "last (fmt_int port) \<in> set ''-0123456789None''"
    using fmt_int_chars [of port] by (rule rev_subsetD)
  then show ?thesis
    by (simp add: digit_not_space)
qed

lemma dropWhile_keep: "xs \<noteq> [] \<Longrightarrow> \<not> P (hd xs) \<Longrightarrow> dropWhile P xs = xs"
  by (cases xs) simp_all

lemma strip_core:
  assumes "list_all is_space a" and "list_all is_space c"
    and "b \<noteq> []" and "\<not> is_space (hd b)" and "\<not> is_space (last b)"
  shows "strip (a @ b @ c) = b"
proof -
  have "dropWhile is_space (a @ b @ c) = dropWhile is_space (b @ c)"
    using assms(1) by (intro dropWhile_append2) (simp add: list_all_iff)
  also have "\<dots> = b @ c"
    using assms(3,4) by (intro dropWhile_keep) simp_all
  finally have front: "dropWhile is_space (a @ b @ c) = b @ c" .
  have "dropWhile is_space (rev c @ rev b) = dropWhile is_space (rev b)"
    using assms(2) by (intro dropWhile_append2) (simp add: list_all_iff)
  also have "\<dots> = rev b"
    using assms(3,5) by (intro dropWhile_keep) (simp_all add: hd_rev)
  finally show ?thesis
    by (simp add: strip_def front)
qed

lemma split_template:
  assumes "newline \<notin> set a" "newline \<notin> set b" "newline \<notin> set c" "newline \<notin> set d"
    "newline \<notin> set e" "newline \<notin> set f"
  shows "split_on newline ([newline] @ a @ [newline] @ b @ [newline] @ c @ [newline] @ d @ [newline] @ e @ [newline] @ f)
         = [[], a, b, c, d, e, f]"
proof -
  have "split_on newline ([] @ newline # a @ newline # b @ newline # c @ newline # d @ newline # e @ newline # f) =
        [[], a, b, c, d, e, f]"
    using assms by (simp only: split_on_append split_on_single set_simps empty_iff not_False_eq_True)
  then show ?thesis by simp
qed

lemma dedent_template:
  assumes "newline \<notin> set i" and "newline \<notin> set u" and "newline \<notin> set p"
  shows "dedent ([newline] @
        spaces 12 @ ''Host runpod'' @ [newline] @
        spaces 14 @ ''HostName '' @ i @ [newline] @
        spaces 14 @ ''User '' @ u @ [newline] @
        spaces 14 @ ''Port '' @ p @ [newline] @
        spaces 14 @ (if fwd then ''ForwardAgent yes'' else []) @ [newline] @
        spaces 8) =
      [newline] @ ''Host runpod'' @ [newline] @ ''  HostName '' @ i @ [newline] @ ''  User '' @ u @ [newline] @
      ''  Port '' @ p @ [newline] @ (if fwd then ''  ForwardAgent yes'' else []) @ [newline]"
proof -
  let ?a = "spaces 12 @ ''Host runpod''" and ?b = "spaces 14 @ ''HostName '' @ i"
    and ?c = "spaces 14 @ ''User '' @ u" and ?d = "spaces 14 @ ''Port '' @ p"
    and ?e = "spaces 14 @ (if fwd then ''ForwardAgent yes'' else [])" and ?f = "spaces 8"
  have "split_on newline ([newline] @ ?a @ [newline] @ ?b @ [newline] @ ?c @ [newline] @ ?d @ [newline] @ ?e @ [newline] @ ?f)
        = [[], ?a, ?b, ?c, ?d, ?e, ?f]"
    using assms by (intro split_template) (simp_all add: newline_def spaces_def)
  then have split: "split_on newline ([newline] @
        spaces 12 @ ''Host runpod'' @ [newline] @
        spaces 14 @ ''HostName '' @ i @ [newline] @
        spaces 14 @ ''User '' @ u @ [newline] @
        spaces 14 @ ''Port '' @ p @ [newline] @
        spaces 14 @ (if fwd then ''ForwardAgent yes'' else []) @ [newline] @
        spaces 8) = [[], ?a, ?b, ?c, ?d, ?e, ?f]"
    by simp
  show ?thesis
    unfolding dedent_def split
    by (cases fwd) (simp_all add: spaces_literal is_blank_def strip_margin_def Let_def)
qed

lemma generate_ssh_config_lines:
  assumes "newline \<notin> set (fmt_str ip)" and "newline \<notin> set user"
  shows "generate_ssh_config ip port user fwd = join_on newline (ssh_config_lines ip port user fwd)"
proof -
  let ?i = "fmt_str ip" and ?p = "fmt_int port"
  let ?body = "join_on newline (ssh_config_lines ip port user fwd)"
  let ?tail = "if fwd then [newline] else [newline, newline]"
  have dedented: "generate_ssh_config ip port user fwd = strip ([newline] @ ?body @ ?tail)"
    unfolding generate_ssh_config_def dedent_template [OF assms(1) assms(2) fmt_int_no_newline]
    by (simp add: ssh_config_lines_def)
  have body: "?body = ''Host runpod'' @ [newline] @ ''  HostName '' @ ?i @ [newline] @ ''  User '' @ user @
      [newline] @ ''  Port '' @ ?p @ (if fwd then [newline] @ ''  ForwardAgent yes'' else [])"
    by (simp add: ssh_config_lines_def)
  have "?body \<noteq> []" and "\<not> is_space (hd ?body)"
    unfolding body by (simp_all add: is_space_def)
  moreover have "\<not> is_space (last ?body)"
    unfolding body using fmt_int_last [of port] fmt_int_nonempty [of port]
    by (simp add: is_space_def)
  moreover have "list_all is_space [newline]" and "list_all is_space ?tail"
    by (simp_all add: is_space_def newline_def)
  ultimately have "strip ([newline] @ ?body @ ?tail) = ?body"
    by (intro strip_core)
  with dedented show ?thesis by simp
qed

section \<open>The outcomes of the provisioning wait\<close>

lemma not_pending_at_answer:
  "\<not> pending_at P pid k \<Longrightarrow>
   (\<exists>e. on_get_pod P k pid = Inl e) \<or> (\<exists>p. on_get_pod P k pid = Inr p \<and> \<not> pending p)"
  by (cases "on_get_pod P k pid") (simp_all add: pending_at_def)

lemma wait_outcome:
  "\<exists>m\<le>n_attempts.
     (\<forall>j<m. pending_at P pid (get_pod_calls s + j)) \<and>
     snd (provisioning_wait P pid 1 s) = polled pid (after_checks pid m s) \<and>
     (if pending_at P pid (get_pod_calls s + m)
      then m = n_attempts \<and> fst (provisioning_wait P pid 1 s) = Inl (RuntimeError ''Pod provisioning failed'')
      else fst (provisioning_wait P pid 1 s) = on_get_pod P (get_pod_calls s + m) pid)"
proof (cases "\<forall>j<Suc n_attempts. pending_at P pid (get_pod_calls s + j)")
  case True
  then have "provisioning_wait P pid 1 s =
      (Inl (RuntimeError ''Pod provisioning failed''), polled pid (after_checks pid n_attempts s))"
    by (rule wait_failed_after)
  with True show ?thesis
    by (intro exI [of _ n_attempts]) simp
next
  case False
  define m where "m = (LEAST j. \<not> pending_at P pid (get_pod_calls s + j))"
  from False obtain j0 where j0: "j0 < Suc n_attempts" "\<not> pending_at P pid (get_pod_calls s + j0)"
    by blast
  have stop: "\<not> pending_at P pid (get_pod_calls s + m)"
    unfolding m_def using j0(2) by (rule LeastI)
  have before: "\<forall>j<m. pending_at P pid (get_pod_calls s + j)"
    unfolding m_def using not_less_Least by blast
  have "m \<le> j0"
    unfolding m_def using j0(2) by (rule Least_le)
  with j0(1) have le: "m \<le> n_attempts" by simp
  from not_pending_at_answer [OF stop]
  have "provisioning_wait P pid 1 s =
        (on_get_pod P (get_pod_calls s + m) pid, polled pid (after_checks pid m s))"
  proof (elim disjE exE conjE)
    fix e assume "on_get_pod P (get_pod_calls s + m) pid = Inl e"
    then show ?thesis
      using wait_error_after [OF before le] by simp
  next
    fix p assume "on_get_pod P (get_pod_calls s + m) pid = Inr p" "\<not> pending p"
    then show ?thesis
      using wait_ready_after [OF before le] by simp
  qed
  with stop before le show ?thesis
    by (intro exI [of _ m]) simp
qed

lemma trace_polled_after_checks:
  "trace (polled pid (after_checks pid m s)) = trace s @ failed_checks pid m @ [GetPodCall pid]"
  by (simp add: polled_def after_checks_def)

lemma get_pod_calls_polled_after_checks:
  "get_pod_calls (polled pid (after_checks pid m s)) = get_pod_calls s + m + 1"
  by (simp add: polled_def after_checks_def)

lemma create_pod_wait_error:
  assumes "fst (launch P a s) = Inr (pid, h)"
    and "provisioning_wait P pid 1 (snd (launch P a s)) = (Inl e, s2)"
  shows "create_pod P a s = (Inl e, s2)"
  using assms by (simp add: create_pod_after_launch seq_def)

lemma create_pod_wait_ready:
  assumes "fst (launch P a s) = Inr (pid, h)"
    and "provisioning_wait P pid 1 (snd (launch P a s)) = (Inr p, s2)"
  shows "create_pod P a s = present_result a h p s2"
  using assms by (simp add: create_pod_after_launch seq_def)

lemma ready_public_ip_of_ports:
  "pod_runtime p = Present rt \<Longrightarrow> rt_ports rt = Present ps \<Longrightarrow>
   ready_public_ip p = public_bindings ps"
  by (simp add: ready_public_ip_def)

lemma ready_public_ip_one:
  assumes "pod_runtime p = Present rt" and "rt_ports rt = Present ps"
    and "filter is_public ps = [b]" and "\<not> list_ex flag_missing ps"
  shows "ready_public_ip p = Inr [b]"
  using assms by (simp add: ready_public_ip_of_ports public_bindings_filter)

lemma example_ready_once:
  assumes "\<not> pending p"
  shows "provisioning_wait (example_provider_with 1 p) (Some ''p1'') 1
           (snd (launch (example_provider_with 1 p) default_create_args example_state)) =
         (Inr p, polled (Some ''p1'') (after_checks (Some ''p1'') 1
           (snd (launch (example_provider_with 1 p) default_create_args example_state))))"
proof (rule wait_ready_after [OF _ _ _ assms])
  show "\<forall>j<1. pending_at (example_provider_with 1 p) (Some ''p1'')
          (get_pod_calls (snd (launch (example_provider_with 1 p) default_create_args example_state)) + j)"
    by (simp add: example_launch_calls example_pending_at)
  show "1 \<le> n_attempts"
    by (simp add: n_attempts_def)
  show "on_get_pod (example_provider_with 1 p)
          (get_pod_calls (snd (launch (example_provider_with 1 p) default_create_args example_state)) + 1)
          (Some ''p1'') = Inr p"
    by (simp add: example_launch_calls example_answer)
qed

lemma example_ready_shape:
  "pod_runtime example_ready = Present \<lparr>rt_ports = Present example_ports\<rparr>"
  "rt_ports \<lparr>rt_ports = Present example_ports\<rparr> = Present example_ports"
  "filter is_public example_ports = [example_public]"
  "\<not> list_ex flag_missing example_ports"
  by (simp_all add: example_ready_def example_pod_def example_ports_def is_public_def flag_missing_def
      example_private_def example_public_def)

lemma example_public_values:
  "fmt_str (get (pb_ip example_public)) = ''1.2.3.4''"
  "fmt_int (get (pb_publicPort example_public)) = ''40022''"
  by (simp_all add: example_public_def str_int_def str_nat.simps digit_char_def)

lemma wait_keeps_ssh_dir_writable:
  assumes "fst (launch P a s0) = Inr (pid, h)"
    and "provisioning_wait P pid 1 (snd (launch P a s0)) = (Inr p, s)"
  shows "ssh_dir_writable s = ssh_dir_writable s0"
proof -
  have "ssh_dir_writable s = ssh_dir_writable (snd (launch P a s0))"
    using keeps_wait_state [of ssh_dir_writable P pid 1 "snd (launch P a s0)"] assms(2)
    by (simp add: keeps_ssh_dir_writable)
  also have "\<dots> = ssh_dir_writable s0"
    by (rule keepsD [OF keeps_launch]) (rule keeps_ssh_dir_writable)+
  finally show ?thesis .
qed

section \<open>The constructor\<close>

lemma init_trace: "trace (snd (init s)) = trace s"
  by (simp add: init_def seq_def load_dotenv_def os_getenv_def raise_def)

lemma init_missing_token:
  "token_missing s \<Longrightarrow>
   init s =
     (Inl (ValueError ''RUNPOD_API_KEY not found in environment. Set it in your .env file.''),
      s\<lparr>environ := environ s ++ dotenv_file s,
        self_api_key := (environ s ++ dotenv_file s) ''RUNPOD_API_KEY''\<rparr>)"
  by (simp add: token_missing_def init_def seq_def load_dotenv_def os_getenv_def raise_def)

section \<open>Pods without a runtime or a public port in the listings\<close>

lemma no_public_listed: "no_public p \<Longrightarrow> listed_public_ip p = Inr []"
  by (auto simp: no_public_def listed_public_ip_def empty_runtime_def public_bindings_filter
      split: field.splits)

lemma list_pods_body_no_public:
  assumes "machine_get p m_gpuDisplayName = Inr gpu" and "no_public p"
  shows "list_pods_body i p s =
     (Inl (AssertionError []),
      s\<lparr>trace := trace s @
         [Print (''Pod '' @ str_int (int i + 1) @ '':''),
          Print (''  ID: '' @ fmt_str (get (pod_id p))),
          Print (''  Name: '' @ fmt_str (get (pod_name p))),
          Print (''  Machine Type: '' @ fmt_str gpu),
          Print (''  Status: '' @ fmt_str (get (pod_desiredStatus p)))]\<rparr>)"
  using assms(1) no_public_listed [OF assms(2)]
  by (simp add: list_pods_body_def seq_def py_print_def lift_def py_assert_def raise_def emit_def)

lemma get_pod_no_public:
  assumes "on_get_pod P (get_pod_calls s) (Some pid) = Inr p"
    and "machine_get p m_gpuDisplayName = Inr gpu" and "machine_get p m_podHostId = Inr host"
    and "no_public p"
  shows "get_pod P pid s =
     (Inl (AssertionError []),
      s\<lparr>trace := trace s @
         [GetPodCall (Some pid),
          Print ''Pod Details:'',
          Print (''  ID: '' @ fmt_str (get (pod_id p))),
          Print (''  Name: '' @ fmt_str (get (pod_name p))),
          Print (''  Machine Type: '' @ fmt_str gpu),
          Print (''  Status: '' @ fmt_str (get (pod_desiredStatus p))),
          Print (''  Pod Host ID: '' @ fmt_str host)],
        get_pod_calls := get_pod_calls s + 1\<rparr>)"
  using assms(1,2,3) no_public_listed [OF assms(4)]
  by (simp add: get_pod_def runpod_get_pod_def seq_def py_print_def lift_def py_assert_def raise_def emit_def)

lemma list_pods_body_ok:
  assumes "fst (list_pods_body i p s) = Inr ()"
  shows "\<exists>b. listed_public_ip p = Inr [b]"
proof (cases "machine_get p m_gpuDisplayName")
  case (Inl e)
  with assms show ?thesis
    by (simp add: list_pods_body_def seq_def py_print_def lift_def emit_def)
next
  case gpu: (Inr g)
  show ?thesis
  proof (cases "listed_public_ip p")
    case (Inl e)
    with assms gpu show ?thesis
      by (simp add: list_pods_body_def seq_def py_print_def lift_def emit_def)
  next
    case (Inr bs)
    have "length bs = 1"
    proof (rule ccontr)
      assume "length bs \<noteq> 1"
      with assms gpu Inr show False
        by (simp add: list_pods_body_def seq_def py_print_def lift_def py_assert_def raise_def emit_def)
    qed
    then obtain b where "bs = [b]"
      by (cases bs) simp_all
    with Inr show ?thesis by simp
  qed
qed

lemma list_pods_loop_ok:
  "fst (list_pods_loop i ps s) = Inr () \<Longrightarrow> p \<in> set ps \<Longrightarrow> \<exists>b. listed_public_ip p = Inr [b]"
proof (induction ps arbitrary: i s)
  case Nil
  then show ?case by simp
next
  case (Cons q qs)
  obtain r s1 where body: "list_pods_body i q s = (r, s1)"
    by (cases "list_pods_body i q s")
  show ?case
  proof (cases r)
    case (Inl e)
    with Cons.prems(1) body show ?thesis
      by (simp add: seq_def)
  next
    case (Inr u)
    with body have ok: "fst (list_pods_body i q s) = Inr ()" by simp
    from Cons.prems(1) body Inr have rest: "fst (list_pods_loop (i + 1) qs s1) = Inr ()"
      by (simp add: seq_def)
    from Cons.prems(2) show ?thesis
    proof (cases "p = q")
      case True
      with ok show ?thesis by (simp add: list_pods_body_ok)
    next
      case False
      with Cons.prems(2) have "p \<in> set qs" by simp
      with rest show ?thesis by (rule Cons.IH)
    qed
  qed
qed

lemma list_pods_fails:
  assumes "on_get_pods P = Inr pods" and "p \<in> set pods" and "no_public p"
  shows "\<exists>e. fst (list_pods P s) = Inl e"
proof (cases "fst (list_pods P s)")
  case (Inl e)
  then show ?thesis by simp
next
  case (Inr u)
  then have "fst (list_pods_loop 0 pods (emit GetPodsCall s)) = Inr ()"
    using assms(1) by (simp add: list_pods_def runpod_get_pods_def seq_def)
  from list_pods_loop_ok [OF this assms(2)] no_public_listed [OF assms(3)]
  show ?thesis by simp
qed

lemma machine_get_cases:
  "machine_get p key = (if pod_machine p = Null then Inl AttributeError
     else Inr (get (key (case pod_machine p of Present m \<Rightarrow> m | Absent \<Rightarrow> empty_machine | Null \<Rightarrow> empty_machine))))"
  by (cases "pod_machine p") (simp_all add: machine_get_def)

lemma null_runtime_listed: "pod_runtime p = Null \<Longrightarrow> listed_public_ip p = Inl AttributeError"
  by (simp add: listed_public_ip_def)

lemma missing_runtime_listed: "pod_runtime p = Absent \<Longrightarrow> listed_public_ip p = Inr []"
  by (simp add: listed_public_ip_def empty_runtime_def)

lemma list_pods_body_null_runtime:
  "pod_runtime p = Null \<Longrightarrow> fst (list_pods_body i p s) = Inl AttributeError"
  by (simp add: list_pods_body_def seq_def py_print_def lift_def machine_get_cases null_runtime_listed)

lemma get_pod_null_runtime:
  "pod_runtime p = Null \<Longrightarrow> on_get_pod P (get_pod_calls s) (Some pid) = Inr p \<Longrightarrow>
   fst (get_pod P pid s) = Inl AttributeError"
  by (simp add: get_pod_def runpod_get_pod_def seq_def py_print_def lift_def machine_get_cases
      null_runtime_listed)

lemma get_pod_null_runtime_state:
  assumes "pod_runtime p = Null" and "on_get_pod P (get_pod_calls s) (Some pid) = Inr p"
    and "machine_get p m_gpuDisplayName = Inr gpu" and "machine_get p m_podHostId = Inr host"
  shows "get_pod P pid s =
     (Inl AttributeError,
      s\<lparr>trace := trace s @
         [GetPodCall (Some pid),
          Print ''Pod Details:'',
          Print (''  ID: '' @ fmt_str (get (pod_id p))),
          Print (''  Name: '' @ fmt_str (get (pod_name p))),
          Print (''  Machine Type: '' @ fmt_str gpu),
          Print (''  Status: '' @ fmt_str (get (pod_desiredStatus p))),
          Print (''  Pod Host ID: '' @ fmt_str host)],
        get_pod_calls := get_pod_calls s + 1\<rparr>)"
  using assms(2,3,4) null_runtime_listed [OF assms(1)]
  by (simp add: get_pod_def runpod_get_pod_def seq_def py_print_def lift_def emit_def)

lemma list_pods_body_missing_runtime:
  "pod_runtime p = Absent \<Longrightarrow>
   fst (list_pods_body i p s) = Inl (if pod_machine p = Null then AttributeError else AssertionError [])"
  by (simp add: list_pods_body_def seq_def py_print_def lift_def py_assert_def raise_def
      machine_get_cases missing_runtime_listed)

lemma get_pod_missing_runtime:
  "pod_runtime p = Absent \<Longrightarrow> on_get_pod P (get_pod_calls s) (Some pid) = Inr p \<Longrightarrow>
   fst (get_pod P pid s) = Inl (if pod_machine p = Null then AttributeError else AssertionError [])"
  by (simp add: get_pod_def runpod_get_pod_def seq_def py_print_def lift_def py_assert_def raise_def
      machine_get_cases missing_runtime_listed)

lemma list_pods_body_displayable:
  assumes "displayable q"
  shows "fst (list_pods_body i q s) = Inr ()"
proof -
  from assms obtain gpu bs where "machine_get q m_gpuDisplayName = Inr gpu"
    and "listed_public_ip q = Inr bs" and "length bs = 1"
    by (auto simp: displayable_def split: sum.splits)
  then show ?thesis
    by (simp add: list_pods_body_def seq_def py_print_def lift_def py_assert_def succeed_def)
qed

lemma list_pods_loop_first_failure:
  assumes "list_all displayable qs" and "\<And>j s1. fst (list_pods_body j p s1) = Inl e"
  shows "fst (list_pods_loop i (qs @ p # rest) s) = Inl e"
  using assms(1)
proof (induction qs arbitrary: i s)
  case Nil
  obtain r s1 where body: "list_pods_body i p s = (r, s1)"
    by (cases "list_pods_body i p s")
  with assms(2) [of i s] have "r = Inl e" by simp
  with body show ?case by (simp add: seq_def)
next
  case (Cons q qs)
  obtain r s1 where body: "list_pods_body i q s = (r, s1)"
    by (cases "list_pods_body i q s")
  from Cons.prems have "displayable q" and rest: "list_all displayable qs" by simp_all
  with body list_pods_body_displayable [of q i s] have "r = Inr ()" by simp
  with body Cons.IH [OF rest, of "i + 1" s1] show ?case
    by (simp add: seq_def)
qed

lemma list_pods_first_failure:
  assumes "on_get_pods P = Inr (qs @ p # rest)" and "list_all displayable qs"
    and "\<And>j s1. fst (list_pods_body j p s1) = Inl e"
  shows "fst (list_pods P s) = Inl e"
  using assms(1) list_pods_loop_first_failure [OF assms(2,3), of 0 rest "emit GetPodsCall s"]
  by (simp add: list_pods_def runpod_get_pods_def seq_def)

section \<open>The startup command\<close>





section \<open>The provisioning wait\<close>

text \<open>
  C1, as the loop behaves. The counter starts at 1 and is compared with \<open>n_attempts = 36\<close>
  after a failed check, before it is incremented, so the failure is raised at the 37th
  failed check. The waiter raises the provisioning failure when the first 37 polls all
  return a pending pod (an absent or empty port collection), and only then, as long as
  the provider client itself raises no error of the same text. Every wait ends after
  \<open>m + 1\<close> polls for some \<open>m \<le> 36\<close>, the first \<open>m\<close> of them failed checks; its trace is
  \<open>m\<close> times a poll followed by a sleep of 5 seconds, and then one last poll. So a
  5-second sleep follows each failed check but the one that raises, none precedes the
  first poll, the sleeps add up to at most 180 seconds, and the polls never exceed 37.
\<close>

theorem provisioning_failure_after_37_polls:
  "((\<forall>j<Suc n_attempts. pending_at P pid (get_pod_calls s + j)) \<longrightarrow>
      provisioning_wait P pid 1 s =
        (Inl (RuntimeError ''Pod provisioning failed''), polled pid (after_checks pid n_attempts s)))
   \<and> (fst (provisioning_wait P pid 1 s) = Inl (RuntimeError ''Pod provisioning failed'') \<and>
       (\<forall>j<Suc n_attempts. on_get_pod P (get_pod_calls s + j) pid \<noteq> Inl (RuntimeError ''Pod provisioning failed'')) \<longrightarrow>
       (\<forall>j<Suc n_attempts. pending_at P pid (get_pod_calls s + j)))
   \<and> (\<exists>m\<le>n_attempts.
         (\<forall>j<m. pending_at P pid (get_pod_calls s + j)) \<and>
         trace (snd (provisioning_wait P pid 1 s)) = trace s @ failed_checks pid m @ [GetPodCall pid] \<and>
         get_pod_calls (snd (provisioning_wait P pid 1 s)) = get_pod_calls s + m + 1)
   \<and> Suc n_attempts = 37"
proof (intro conjI impI)
  assume "\<forall>j<Suc n_attempts. pending_at P pid (get_pod_calls s + j)"
  then show "provisioning_wait P pid 1 s =
        (Inl (RuntimeError ''Pod provisioning failed''), polled pid (after_checks pid n_attempts s))"
    by (rule wait_failed_after)
next
  assume a: "fst (provisioning_wait P pid 1 s) = Inl (RuntimeError ''Pod provisioning failed'') \<and>
       (\<forall>j<Suc n_attempts. on_get_pod P (get_pod_calls s + j) pid \<noteq> Inl (RuntimeError ''Pod provisioning failed''))"
  from wait_outcome [of P pid s] obtain m where m: "m \<le> n_attempts"
    "\<forall>j<m. pending_at P pid (get_pod_calls s + j)"
    "if pending_at P pid (get_pod_calls s + m)
      then m = n_attempts \<and> fst (provisioning_wait P pid 1 s) = Inl (RuntimeError ''Pod provisioning failed'')
      else fst (provisioning_wait P pid 1 s) = on_get_pod P (get_pod_calls s + m) pid"
    by blast
  have last: "pending_at P pid (get_pod_calls s + m)"
  proof (rule ccontr)
    assume "\<not> pending_at P pid (get_pod_calls s + m)"
    with m(3) a have "on_get_pod P (get_pod_calls s + m) pid = Inl (RuntimeError ''Pod provisioning failed'')"
      by simp
    with a m(1) show False by (simp add: less_Suc_eq_le)
  qed
  with m(3) have "m = n_attempts" by simp
  with m(2) last show "\<forall>j<Suc n_attempts. pending_at P pid (get_pod_calls s + j)"
    by (simp add: less_Suc_eq)
next
  from wait_outcome [of P pid s] obtain m where "m \<le> n_attempts"
    "\<forall>j<m. pending_at P pid (get_pod_calls s + j)"
    "snd (provisioning_wait P pid 1 s) = polled pid (after_checks pid m s)"
    by blast
  then show "\<exists>m\<le>n_attempts.
         (\<forall>j<m. pending_at P pid (get_pod_calls s + j)) \<and>
         trace (snd (provisioning_wait P pid 1 s)) = trace s @ failed_checks pid m @ [GetPodCall pid] \<and>
         get_pod_calls (snd (provisioning_wait P pid 1 s)) = get_pod_calls s + m + 1"
    by (intro exI [of _ m]) (simp add: trace_polled_after_checks get_pod_calls_polled_after_checks)
next
  show "Suc n_attempts = 37" by (simp add: n_attempts_def)
qed

theorem provisioning_failure_after_37_polls_witness:
  "provisioning_wait (example_provider 40) (Some ''p1'') 1 example_state =
     (Inl (RuntimeError ''Pod provisioning failed''),
      polled (Some ''p1'') (after_checks (Some ''p1'') 36 example_state))
   \<and> get_pod_calls (polled (Some ''p1'') (after_checks (Some ''p1'') 36 example_state)) = 37"
proof -
  have k: "get_pod_calls example_state = 0"
    by (simp add: example_state_def)
  have "\<forall>j<Suc n_attempts. pending_at (example_provider 40) (Some ''p1'') (get_pod_calls example_state + j)"
    by (simp add: k example_provider_def example_pending_at n_attempts_def)
  with provisioning_failure_after_37_polls [of "example_provider 40" "Some ''p1''" example_state]
  show ?thesis
    by (simp add: n_attempts_def get_pod_calls_polled_after_checks k)
qed

text \<open>
  Against C1 as stated (failure after 36 consecutive pending polls, never more than 36
  polls): a provider that answers 36 polls with a pending pod and the next one with a
  ready pod. The wait does not fail; it polls a 37th time and returns the ready pod.
\<close>

theorem provisioning_wait_37th_poll_counterexample:
  "list_all (pending_at (example_provider 36) (Some ''p1'')) [0..<36]
   \<and> fst (provisioning_wait (example_provider 36) (Some ''p1'') 1 example_state) = Inr example_ready
   \<and> get_pod_calls (snd (provisioning_wait (example_provider 36) (Some ''p1'') 1 example_state)) = 37"
proof -
  let ?P = "example_provider 36" and ?pid = "Some ''p1''"
  have k: "get_pod_calls example_state = 0"
    by (simp add: example_state_def)
  have before: "\<forall>j<36. pending_at ?P ?pid (get_pod_calls example_state + j)"
    by (simp add: k example_provider_def example_pending_at)
  have answer: "on_get_pod ?P (get_pod_calls example_state + 36) ?pid = Inr example_ready"
    by (simp add: k example_provider_def example_answer)
  have "provisioning_wait ?P ?pid 1 example_state =
        (Inr example_ready, polled ?pid (after_checks ?pid 36 example_state))"
    using before _ answer example_ready_not_pending
    by (rule wait_ready_after) (simp add: n_attempts_def)
  moreover have "list_all (pending_at ?P ?pid) [0..<36]"
    using before by (simp add: k list_all_iff)
  ultimately show ?thesis
    by (simp add: get_pod_calls_polled_after_checks k)
qed

text \<open>
  C4. A poll whose answer has a runtime descriptor with a non-empty port collection ends
  the loop with that pod, whatever the value \<open>i\<close> of the counter, and the state returned
  has this one poll more and nothing after it. Run from the start: when \<open>m\<close> failed
  checks (\<open>m\<close> within the 36 the loop allows) precede the first such answer, the wait
  returns the pod after exactly \<open>m + 1\<close> polls, the last event of its trace being that
  poll.
\<close>

theorem ready_on_first_nonempty_ports:
  "(on_get_pod P (get_pod_calls s) pid = Inr p \<and>
    pod_runtime p = Present rt \<and> rt_ports rt = Present ps \<and> ps \<noteq> [] \<longrightarrow>
      provisioning_wait P pid i s = (Inr p, polled pid s))
   \<and> ((\<forall>j<m. pending_at P pid (get_pod_calls s + j)) \<and> m \<le> n_attempts \<and>
       on_get_pod P (get_pod_calls s + m) pid = Inr p \<and>
       pod_runtime p = Present rt \<and> rt_ports rt = Present ps \<and> ps \<noteq> [] \<longrightarrow>
      provisioning_wait P pid 1 s = (Inr p, polled pid (after_checks pid m s)) \<and>
      get_pod_calls (polled pid (after_checks pid m s)) = get_pod_calls s + m + 1 \<and>
      trace (polled pid (after_checks pid m s)) = trace s @ failed_checks pid m @ [GetPodCall pid])"
proof (intro conjI impI)
  assume a: "on_get_pod P (get_pod_calls s) pid = Inr p \<and>
    pod_runtime p = Present rt \<and> rt_ports rt = Present ps \<and> ps \<noteq> []"
  then have "\<not> pending p" by (simp add: pending_def)
  with a show "provisioning_wait P pid i s = (Inr p, polled pid s)"
    by (intro wait_ready_step) simp_all
next
  assume a: "(\<forall>j<m. pending_at P pid (get_pod_calls s + j)) \<and> m \<le> n_attempts \<and>
       on_get_pod P (get_pod_calls s + m) pid = Inr p \<and>
       pod_runtime p = Present rt \<and> rt_ports rt = Present ps \<and> ps \<noteq> []"
  then have "\<not> pending p" by (simp add: pending_def)
  with a show "provisioning_wait P pid 1 s = (Inr p, polled pid (after_checks pid m s))"
    by (intro wait_ready_after) simp_all
next
  show "get_pod_calls (polled pid (after_checks pid m s)) = get_pod_calls s + m + 1"
    by (rule get_pod_calls_polled_after_checks)
next
  show "trace (polled pid (after_checks pid m s)) = trace s @ failed_checks pid m @ [GetPodCall pid]"
    by (rule trace_polled_after_checks)
qed

theorem ready_on_first_nonempty_ports_witness:
  "provisioning_wait (example_provider 0) (Some ''p1'') 40 example_state =
     (Inr example_ready, polled (Some ''p1'') example_state)
   \<and> provisioning_wait (example_provider 2) (Some ''p1'') 1 example_state =
     (Inr example_ready, polled (Some ''p1'') (after_checks (Some ''p1'') 2 example_state))
   \<and> trace (polled (Some ''p1'') (after_checks (Some ''p1'') 2 example_state)) =
     [GetPodCall (Some ''p1''), Sleep 5, GetPodCall (Some ''p1''), Sleep 5, GetPodCall (Some ''p1'')]"
proof -
  have k: "get_pod_calls example_state = 0"
    by (simp add: example_state_def)
  have shape: "pod_runtime example_ready = Present \<lparr>rt_ports = Present example_ports\<rparr>"
    "rt_ports \<lparr>rt_ports = Present example_ports\<rparr> = Present example_ports" "example_ports \<noteq> []"
    by (simp_all add: example_ready_def example_pod_def example_ports_def)
  have first: "provisioning_wait (example_provider 0) (Some ''p1'') 40 example_state =
     (Inr example_ready, polled (Some ''p1'') example_state)"
    using ready_on_first_nonempty_ports [of "example_provider 0" example_state "Some ''p1''" example_ready
        "\<lparr>rt_ports = Present example_ports\<rparr>" example_ports 40 0] shape
    by (simp add: k example_provider_def example_answer)
  have "\<forall>j<2. pending_at (example_provider 2) (Some ''p1'') (get_pod_calls example_state + j)"
    by (simp add: k example_provider_def example_pending_at)
  then have second: "provisioning_wait (example_provider 2) (Some ''p1'') 1 example_state =
     (Inr example_ready, polled (Some ''p1'') (after_checks (Some ''p1'') 2 example_state))"
    using ready_on_first_nonempty_ports [of "example_provider 2" example_state "Some ''p1''" example_ready
        "\<lparr>rt_ports = Present example_ports\<rparr>" example_ports 1 2] shape
    by (simp add: k example_provider_def example_answer n_attempts_def)
  have "trace (polled (Some ''p1'') (after_checks (Some ''p1'') 2 example_state)) =
     [GetPodCall (Some ''p1''), Sleep 5, GetPodCall (Some ''p1''), Sleep 5, GetPodCall (Some ''p1'')]"
    by (simp add: polled_def after_checks_def failed_checks_def example_state_def numeral_2_eq_2)
  with first second show ?thesis by (intro conjI)
qed

text \<open>
  C7. No run of \<^verbatim>\<open>create_pod\<close> calls \<^verbatim>\<open>terminate_pod\<close> of the provider: the termination
  calls in the trace are those that were there before. When the pod was requested
  successfully and the attempt budget is used up (the first 37 polls all pending),
  \<^verbatim>\<open>create_pod\<close> ends with the provisioning failure, and the last thing it did is the
  37th poll: nothing is printed, written or called after it.
\<close>

theorem provisioning_timeout_issues_no_termination:
  "terminated (snd (create_pod P a s)) = terminated s
   \<and> (fst (launch P a s) = Inr (pid, h) \<and>
       (\<forall>j<Suc n_attempts. pending_at P pid (get_pod_calls (snd (launch P a s)) + j)) \<longrightarrow>
       create_pod P a s =
         (Inl (RuntimeError ''Pod provisioning failed''),
          polled pid (after_checks pid n_attempts (snd (launch P a s)))))"
proof (intro conjI impI)
  show "terminated (snd (create_pod P a s)) = terminated s"
    by (rule keepsD [OF keeps_terminated_create_pod])
next
  assume a: "fst (launch P a s) = Inr (pid, h) \<and>
       (\<forall>j<Suc n_attempts. pending_at P pid (get_pod_calls (snd (launch P a s)) + j))"
  then have "provisioning_wait P pid 1 (snd (launch P a s)) =
      (Inl (RuntimeError ''Pod provisioning failed''),
       polled pid (after_checks pid n_attempts (snd (launch P a s))))"
    by (intro wait_failed_after) simp
  with a show "create_pod P a s =
         (Inl (RuntimeError ''Pod provisioning failed''),
          polled pid (after_checks pid n_attempts (snd (launch P a s))))"
    by (intro create_pod_wait_error) simp_all
qed

theorem provisioning_timeout_issues_no_termination_witness:
  "fst (create_pod (example_provider 37) default_create_args example_state) =
     Inl (RuntimeError ''Pod provisioning failed'')
   \<and> terminated (snd (create_pod (example_provider 37) default_create_args example_state)) = []
   \<and> get_pod_calls (snd (create_pod (example_provider 37) default_create_args example_state)) = 37"
proof -
  let ?P = "example_provider 37"
  note claim = provisioning_timeout_issues_no_termination
    [of ?P default_create_args example_state "Some ''p1''" "Some ''h1''"]
  have launched: "fst (launch ?P default_create_args example_state) = Inr (Some ''p1'', Some ''h1'')"
    by (simp add: example_provider_def example_launch)
  have calls: "get_pod_calls (snd (launch ?P default_create_args example_state)) = 0"
    by (simp add: example_provider_def example_launch_calls)
  have "\<forall>j<Suc n_attempts. pending_at ?P (Some ''p1'')
          (get_pod_calls (snd (launch ?P default_create_args example_state)) + j)"
    by (simp add: example_provider_def example_launch_calls example_pending_at n_attempts_def)
  with launched claim have run: "create_pod ?P default_create_args example_state =
      (Inl (RuntimeError ''Pod provisioning failed''),
       polled (Some ''p1'') (after_checks (Some ''p1'') n_attempts (snd (launch ?P default_create_args example_state))))"
    by blast
  have "terminated (snd (create_pod ?P default_create_args example_state)) = []"
    using claim by (simp add: terminated_def example_state_def)
  with run show ?thesis
    by (simp add: get_pod_calls_polled_after_checks calls n_attempts_def)
qed

section \<open>Presenting the connection\<close>

text \<open>
  C5. When the wait has returned a ready pod whose port collection has no binding or
  more than one binding with the public-IP flag set, \<^verbatim>\<open>create_pod\<close> ends with an
  \<^verbatim>\<open>AssertionError\<close> that tells the count (with \<^verbatim>\<open>KeyError\<close> when a binding lacks the
  flag altogether), which is not the provisioning failure. Its final state is the
  state the wait returned plus the line \<^verbatim>\<open>Pod provisioned\<close>: no further poll, no public IP
  or port line, and the SSH configuration file is as it was before the call.
\<close>

theorem integrity_error_without_connection_info:
  "fst (launch P a s) = Inr (pid, h) \<and>
   provisioning_wait P pid 1 (snd (launch P a s)) = (Inr p, s2) \<and>
   length (filter is_public (ports_of p)) \<noteq> 1 \<longrightarrow>
     create_pod P a s =
       (Inl (if list_ex flag_missing (ports_of p) then KeyError ''isIpPublic''
             else AssertionError (''Expected 1 public IP, got '' @
                    str_int (int (length (filter is_public (ports_of p)))))),
        emit (Print ''  Pod provisioned'') s2)
     \<and> fst (create_pod P a s) \<noteq> Inl (RuntimeError ''Pod provisioning failed'')
     \<and> get_pod_calls (snd (create_pod P a s)) = get_pod_calls s2
     \<and> runpod_config (snd (create_pod P a s)) = runpod_config s"
proof (intro impI, elim conjE)
  assume launched: "fst (launch P a s) = Inr (pid, h)"
    and ready: "provisioning_wait P pid 1 (snd (launch P a s)) = (Inr p, s2)"
    and count: "length (filter is_public (ports_of p)) \<noteq> 1"
  let ?e = "if list_ex flag_missing (ports_of p) then KeyError ''isIpPublic''
             else AssertionError (''Expected 1 public IP, got '' @
                    str_int (int (length (filter is_public (ports_of p)))))"
  have "\<not> pending p"
    using ready by (rule wait_returns_ready)
  then have bindings: "ready_public_ip p = public_bindings (ports_of p)"
    by (rule ready_public_ip_ports)
  have "present_result a h p s2 = (Inl ?e, emit (Print ''  Pod provisioned'') s2)"
  proof (cases "list_ex flag_missing (ports_of p)")
    case True
    then show ?thesis
      by (simp add: bindings public_bindings_filter present_result_raises)
  next
    case False
    then have "ready_public_ip p = Inr (filter is_public (ports_of p))"
      by (simp add: bindings public_bindings_filter)
    from present_result_assertion [OF this count] False show ?thesis
      by simp
  qed
  with launched ready have run: "create_pod P a s = (Inl ?e, emit (Print ''  Pod provisioned'') s2)"
    by (simp add: create_pod_wait_ready)
  have "runpod_config s2 = runpod_config (snd (launch P a s))"
    using keeps_wait_state [of runpod_config P pid 1 "snd (launch P a s)"] ready
    by (simp add: keeps_runpod_config)
  also have "\<dots> = runpod_config s"
    by (rule keepsD [OF keeps_launch]) (rule keeps_runpod_config)+
  finally have kept: "runpod_config s2 = runpod_config s" .
  show "create_pod P a s = (Inl ?e, emit (Print ''  Pod provisioned'') s2)
     \<and> fst (create_pod P a s) \<noteq> Inl (RuntimeError ''Pod provisioning failed'')
     \<and> get_pod_calls (snd (create_pod P a s)) = get_pod_calls s2
     \<and> runpod_config (snd (create_pod P a s)) = runpod_config s"
    by (simp add: run emit_def kept)
qed

theorem integrity_error_without_connection_info_witness:
  "fst (create_pod (example_provider_with 1 (example_pod [example_private])) default_create_args example_state) =
     Inl (AssertionError ''Expected 1 public IP, got 0'')
   \<and> runpod_config (snd (create_pod (example_provider_with 1 (example_pod [example_private]))
        default_create_args example_state)) = Some ''Host old''
   \<and> fst (create_pod (example_provider_with 1 (example_pod [example_public, example_public]))
        default_create_args example_state) =
     Inl (AssertionError ''Expected 1 public IP, got 2'')"
proof -
  let ?none = "example_pod [example_private]" and ?two = "example_pod [example_public, example_public]"
  have ports: "ports_of ?none = [example_private]" "ports_of ?two = [example_public, example_public]"
    by (simp_all add: ports_of_def example_pod_def)
  have flags: "\<not> is_public example_private" "is_public example_public"
    "\<not> flag_missing example_private" "\<not> flag_missing example_public"
    by (simp_all add: is_public_def flag_missing_def example_private_def example_public_def)
  have ready: "\<not> pending ?none" "\<not> pending ?two"
    by (simp_all add: pending_iff_no_ports ports)
  have digits: "str_int 0 = ''0''" "str_int 2 = ''2''"
    by (simp_all add: str_int_def str_nat.simps digit_char_def)
  have none: "fst (launch (example_provider_with 1 ?none) default_create_args example_state) =
        Inr (Some ''p1'', Some ''h1'') \<and>
      provisioning_wait (example_provider_with 1 ?none) (Some ''p1'') 1
        (snd (launch (example_provider_with 1 ?none) default_create_args example_state)) =
        (Inr ?none, polled (Some ''p1'') (after_checks (Some ''p1'') 1
           (snd (launch (example_provider_with 1 ?none) default_create_args example_state)))) \<and>
      length (filter is_public (ports_of ?none)) \<noteq> 1"
    by (intro conjI example_launch example_ready_once [OF ready(1)]) (simp add: ports flags)
  have two: "fst (launch (example_provider_with 1 ?two) default_create_args example_state) =
        Inr (Some ''p1'', Some ''h1'') \<and>
      provisioning_wait (example_provider_with 1 ?two) (Some ''p1'') 1
        (snd (launch (example_provider_with 1 ?two) default_create_args example_state)) =
        (Inr ?two, polled (Some ''p1'') (after_checks (Some ''p1'') 1
           (snd (launch (example_provider_with 1 ?two) default_create_args example_state)))) \<and>
      length (filter is_public (ports_of ?two)) \<noteq> 1"
    by (intro conjI example_launch example_ready_once [OF ready(2)]) (simp add: ports flags)
  note zero_public = integrity_error_without_connection_info [THEN mp, OF none]
  note two_public = integrity_error_without_connection_info [THEN mp, OF two]
  have "fst (create_pod (example_provider_with 1 ?none) default_create_args example_state) =
          Inl (AssertionError ''Expected 1 public IP, got 0'')"
    using zero_public [THEN conjunct1] by (simp add: ports flags digits)
  moreover have "runpod_config (snd (create_pod (example_provider_with 1 ?none) default_create_args example_state)) =
          Some ''Host old''"
    using zero_public [THEN conjunct2, THEN conjunct2, THEN conjunct2] by (simp add: example_state_def)
  moreover have "fst (create_pod (example_provider_with 1 ?two) default_create_args example_state) =
     Inl (AssertionError ''Expected 1 public IP, got 2'')"
    using two_public [THEN conjunct1] by (simp add: ports flags digits)
  ultimately show ?thesis by (intro conjI)
qed

text \<open>
  C6. For a ready pod whose port collection has exactly one binding \<open>b\<close> with the public-IP
  flag set, the presenter prints the IP and the external port of \<open>b\<close> (the lines of
  \<open>connection_lines\<close>) and builds the SSH configuration from them. For the collection
  \<^verbatim>\<open>[{public: false, ...}, {public: true, ip: "1.2.3.4", port: 40022}]\<close> the lines are
  \<^verbatim>\<open>Public IP: 1.2.3.4\<close> and \<^verbatim>\<open>Public port: 40022\<close>.
\<close>

theorem presenter_yields_public_binding:
  "pod_runtime p = Present rt \<and> rt_ports rt = Present ps \<and>
   filter is_public ps = [b] \<and> \<not> list_ex flag_missing ps \<longrightarrow>
   present_result a h p s =
     (let s1 = s\<lparr>trace := trace s @ connection_lines h b\<rparr>;
          config = generate_ssh_config (get (pb_ip b)) (get (pb_publicPort b)) ''root'' (opt_forward_agent a)
      in if opt_update_ssh_config a then
           if ssh_dir_writable s then
             (Inr (), s1\<lparr>trace := trace s1 @ [WriteText config, Print ''SSH config updated''],
                         runpod_config := Some config\<rparr>)
           else (Inl OSError, s1)
         else (Inr (), s1))"
proof (intro impI, elim conjE)
  assume "pod_runtime p = Present rt" and "rt_ports rt = Present ps"
    and "filter is_public ps = [b]" and "\<not> list_ex flag_missing ps"
  then have "ready_public_ip p = Inr [b]"
    by (rule ready_public_ip_one)
  then show "present_result a h p s =
     (let s1 = s\<lparr>trace := trace s @ connection_lines h b\<rparr>;
          config = generate_ssh_config (get (pb_ip b)) (get (pb_publicPort b)) ''root'' (opt_forward_agent a)
      in if opt_update_ssh_config a then
           if ssh_dir_writable s then
             (Inr (), s1\<lparr>trace := trace s1 @ [WriteText config, Print ''SSH config updated''],
                         runpod_config := Some config\<rparr>)
           else (Inl OSError, s1)
         else (Inr (), s1))"
    by (rule present_result_one)
qed

theorem presenter_yields_public_binding_witness:
  "fst (present_result default_create_args (Some ''h1'') example_ready example_state) = Inr ()
   \<and> take 3 (trace (snd (present_result default_create_args (Some ''h1'') example_ready example_state))) =
       [Print ''  Pod provisioned'', Print ''  Public IP: 1.2.3.4'', Print ''  Public port: 40022'']"
  using presenter_yields_public_binding [of example_ready "\<lparr>rt_ports = Present example_ports\<rparr>"
      example_ports example_public default_create_args "Some ''h1''" example_state]
  by (simp add: example_ready_shape example_public_values Let_def connection_lines_def
      default_create_args_def example_state_def)

text \<open>
  C9. When the SSH configuration is to be updated and the file can be written, the
  content of the file after the presenter has run is the text \<^verbatim>\<open>generate_ssh_config\<close>
  returns for the public binding, whatever the file held before (\<open>prior\<close>); so it is after
  the whole of \<^verbatim>\<open>create_pod\<close>, which then succeeds. For an IP without a line break that text is the lines
  \<^verbatim>\<open>Host runpod\<close>, \<^verbatim>\<open>HostName <ip>\<close>, \<^verbatim>\<open>User root\<close>, \<^verbatim>\<open>Port <port>\<close>, followed by
  \<^verbatim>\<open>ForwardAgent yes\<close> exactly when agent forwarding is requested.
\<close>

theorem ssh_config_file_content:
  "opt_update_ssh_config a \<and>
   pod_runtime p = Present rt \<and> rt_ports rt = Present ps \<and>
   filter is_public ps = [b] \<and> \<not> list_ex flag_missing ps \<longrightarrow>
     (ssh_dir_writable s \<longrightarrow>
        fst (present_result a h p (s\<lparr>runpod_config := prior\<rparr>)) = Inr () \<and>
        runpod_config (snd (present_result a h p (s\<lparr>runpod_config := prior\<rparr>))) =
          Some (generate_ssh_config (get (pb_ip b)) (get (pb_publicPort b)) ''root'' (opt_forward_agent a)))
     \<and> (ssh_dir_writable s0 \<and> fst (launch P a s0) = Inr (pid, h) \<and>
         provisioning_wait P pid 1 (snd (launch P a s0)) = (Inr p, s2) \<longrightarrow>
        fst (create_pod P a s0) = Inr () \<and>
        runpod_config (snd (create_pod P a s0)) =
          Some (generate_ssh_config (get (pb_ip b)) (get (pb_publicPort b)) ''root'' (opt_forward_agent a)))
     \<and> (newline \<notin> set (fmt_str (get (pb_ip b))) \<longrightarrow>
         generate_ssh_config (get (pb_ip b)) (get (pb_publicPort b)) ''root'' (opt_forward_agent a) =
           join_on newline
             ([''Host runpod'',
               ''  HostName '' @ fmt_str (get (pb_ip b)),
               ''  User root'',
               ''  Port '' @ fmt_int (get (pb_publicPort b))] @
              (if opt_forward_agent a then [''  ForwardAgent yes''] else [])))
     \<and> (''  ForwardAgent yes'' \<in> set
           ([''Host runpod'',
             ''  HostName '' @ fmt_str (get (pb_ip b)),
             ''  User root'',
             ''  Port '' @ fmt_int (get (pb_publicPort b))] @
            (if opt_forward_agent a then [''  ForwardAgent yes''] else []))
          \<longleftrightarrow> opt_forward_agent a)"
proof (intro impI, elim conjE)
  assume update: "opt_update_ssh_config a"
    and shape: "pod_runtime p = Present rt" "rt_ports rt = Present ps"
      "filter is_public ps = [b]" "\<not> list_ex flag_missing ps"
  let ?config = "generate_ssh_config (get (pb_ip b)) (get (pb_publicPort b)) ''root'' (opt_forward_agent a)"
  let ?lines = "[''Host runpod'',
             ''  HostName '' @ fmt_str (get (pb_ip b)),
             ''  User root'',
             ''  Port '' @ fmt_int (get (pb_publicPort b))] @
            (if opt_forward_agent a then [''  ForwardAgent yes''] else [])"
  have one: "ready_public_ip p = Inr [b]"
    using shape by (rule ready_public_ip_one)
  have run: "present_result a h p s1 =
      (Inr (), s1\<lparr>trace := trace s1 @ connection_lines h b @ [WriteText ?config, Print ''SSH config updated''],
                  runpod_config := Some ?config\<rparr>)" if "ssh_dir_writable s1" for s1
    using one update that by (simp add: present_result_one Let_def)
  have presenter: "ssh_dir_writable s \<longrightarrow>
        fst (present_result a h p (s\<lparr>runpod_config := prior\<rparr>)) = Inr () \<and>
        runpod_config (snd (present_result a h p (s\<lparr>runpod_config := prior\<rparr>))) = Some ?config"
  proof
    assume "ssh_dir_writable s"
    then have "ssh_dir_writable (s\<lparr>runpod_config := prior\<rparr>)" by simp
    from run [OF this]
    show "fst (present_result a h p (s\<lparr>runpod_config := prior\<rparr>)) = Inr () \<and>
        runpod_config (snd (present_result a h p (s\<lparr>runpod_config := prior\<rparr>))) = Some ?config"
      by simp
  qed
  have whole: "ssh_dir_writable s0 \<and> fst (launch P a s0) = Inr (pid, h) \<and>
         provisioning_wait P pid 1 (snd (launch P a s0)) = (Inr p, s2) \<longrightarrow>
        fst (create_pod P a s0) = Inr () \<and> runpod_config (snd (create_pod P a s0)) = Some ?config"
  proof (intro impI, elim conjE)
    assume writable: "ssh_dir_writable s0" and launched: "fst (launch P a s0) = Inr (pid, h)"
      and ready: "provisioning_wait P pid 1 (snd (launch P a s0)) = (Inr p, s2)"
    have "ssh_dir_writable s2"
      using wait_keeps_ssh_dir_writable [OF launched ready] writable by simp
    from run [OF this] create_pod_wait_ready [OF launched ready]
    show "fst (create_pod P a s0) = Inr () \<and> runpod_config (snd (create_pod P a s0)) = Some ?config"
      by simp
  qed
  have lines: "newline \<notin> set (fmt_str (get (pb_ip b))) \<longrightarrow> ?config = join_on newline ?lines"
  proof
    assume "newline \<notin> set (fmt_str (get (pb_ip b)))"
    moreover have "newline \<notin> set ''root''"
      by (simp add: newline_def)
    ultimately have "?config = join_on newline
        (ssh_config_lines (get (pb_ip b)) (get (pb_publicPort b)) ''root'' (opt_forward_agent a))"
      by (rule generate_ssh_config_lines)
    then show "?config = join_on newline ?lines"
      by (simp add: ssh_config_lines_def)
  qed
  have forward: "''  ForwardAgent yes'' \<in> set ?lines \<longleftrightarrow> opt_forward_agent a"
    by simp
  from presenter whole lines forward
  show "(ssh_dir_writable s \<longrightarrow>
        fst (present_result a h p (s\<lparr>runpod_config := prior\<rparr>)) = Inr () \<and>
        runpod_config (snd (present_result a h p (s\<lparr>runpod_config := prior\<rparr>))) = Some ?config)
     \<and> (ssh_dir_writable s0 \<and> fst (launch P a s0) = Inr (pid, h) \<and>
         provisioning_wait P pid 1 (snd (launch P a s0)) = (Inr p, s2) \<longrightarrow>
        fst (create_pod P a s0) = Inr () \<and> runpod_config (snd (create_pod P a s0)) = Some ?config)
     \<and> (newline \<notin> set (fmt_str (get (pb_ip b))) \<longrightarrow> ?config = join_on newline ?lines)
     \<and> (''  ForwardAgent yes'' \<in> set ?lines \<longleftrightarrow> opt_forward_agent a)"
    by (intro conjI)
qed

theorem ssh_config_file_content_witness:
  "runpod_config example_state = Some ''Host old''
   \<and> fst (create_pod (example_provider 1) default_create_args example_state) = Inr ()
   \<and> runpod_config (snd (create_pod (example_provider 1) default_create_args example_state)) =
       Some (''Host runpod'' @ [newline] @ ''  HostName 1.2.3.4'' @ [newline] @ ''  User root'' @ [newline] @
             ''  Port 40022'')
   \<and> runpod_config (snd (present_result (default_create_args\<lparr>opt_forward_agent := True\<rparr>) (Some ''h1'')
        example_ready example_state)) =
       Some (''Host runpod'' @ [newline] @ ''  HostName 1.2.3.4'' @ [newline] @ ''  User root'' @ [newline] @
             ''  Port 40022'' @ [newline] @ ''  ForwardAgent yes'')"
proof -
  have same: "example_state\<lparr>runpod_config := Some ''Host old''\<rparr> = example_state"
    by (simp add: example_state_def)
  have writable: "ssh_dir_writable example_state"
    by (simp add: example_state_def)
  have pre: "opt_update_ssh_config a \<Longrightarrow>
     opt_update_ssh_config a \<and>
     pod_runtime example_ready = Present \<lparr>rt_ports = Present example_ports\<rparr> \<and>
     rt_ports \<lparr>rt_ports = Present example_ports\<rparr> = Present example_ports \<and>
     filter is_public example_ports = [example_public] \<and> \<not> list_ex flag_missing example_ports" for a
    by (simp add: example_ready_shape)
  have update: "opt_update_ssh_config default_create_args"
    "opt_update_ssh_config (default_create_args\<lparr>opt_forward_agent := True\<rparr>)"
    by (simp_all add: default_create_args_def)
  have no_newline: "newline \<notin> set (fmt_str (get (pb_ip example_public)))"
    by (simp add: example_public_values newline_def)
  have waited: "ssh_dir_writable example_state \<and>
      fst (launch (example_provider 1) default_create_args example_state) = Inr (Some ''p1'', Some ''h1'') \<and>
      provisioning_wait (example_provider 1) (Some ''p1'') 1
        (snd (launch (example_provider 1) default_create_args example_state)) =
        (Inr example_ready, polled (Some ''p1'') (after_checks (Some ''p1'') 1
           (snd (launch (example_provider 1) default_create_args example_state))))"
    unfolding example_provider_def
    by (intro conjI writable example_launch example_ready_once example_ready_not_pending)
  note plain = ssh_config_file_content [THEN mp, OF pre [OF update(1)]]
  note forwarding = ssh_config_file_content [THEN mp, OF pre [OF update(2)]]
  have text_plain: "generate_ssh_config (get (pb_ip example_public)) (get (pb_publicPort example_public)) ''root''
        (opt_forward_agent default_create_args) =
      ''Host runpod'' @ [newline] @ ''  HostName 1.2.3.4'' @ [newline] @ ''  User root'' @ [newline] @
      ''  Port 40022''"
    using plain [THEN conjunct2, THEN conjunct2, THEN conjunct1, THEN mp, OF no_newline]
    by (simp add: default_create_args_def example_public_values)
  have text_forwarding: "generate_ssh_config (get (pb_ip example_public)) (get (pb_publicPort example_public)) ''root''
        (opt_forward_agent (default_create_args\<lparr>opt_forward_agent := True\<rparr>)) =
      ''Host runpod'' @ [newline] @ ''  HostName 1.2.3.4'' @ [newline] @ ''  User root'' @ [newline] @
      ''  Port 40022'' @ [newline] @ ''  ForwardAgent yes''"
    using forwarding [THEN conjunct2, THEN conjunct2, THEN conjunct1, THEN mp, OF no_newline]
    by (simp add: default_create_args_def example_public_values)
  have "fst (create_pod (example_provider 1) default_create_args example_state) = Inr () \<and>
      runpod_config (snd (create_pod (example_provider 1) default_create_args example_state)) =
       Some (''Host runpod'' @ [newline] @ ''  HostName 1.2.3.4'' @ [newline] @ ''  User root'' @ [newline] @
             ''  Port 40022'')"
    using plain [THEN conjunct2, THEN conjunct1, THEN mp, OF waited]
    by (simp only: text_plain)
  moreover have "runpod_config (snd (present_result (default_create_args\<lparr>opt_forward_agent := True\<rparr>) (Some ''h1'')
        example_ready example_state)) =
       Some (''Host runpod'' @ [newline] @ ''  HostName 1.2.3.4'' @ [newline] @ ''  User root'' @ [newline] @
             ''  Port 40022'' @ [newline] @ ''  ForwardAgent yes'')"
    using forwarding [THEN conjunct1, THEN mp, OF writable, of "Some ''h1''" "Some ''Host old''"]
    by (simp only: text_forwarding same)
  moreover have "runpod_config example_state = Some ''Host old''"
    by (simp add: example_state_def)
  ultimately show ?thesis by (intro conjI) simp_all
qed

section \<open>The credential check\<close>

text \<open>
  C8. Constructing the manager makes no call and prints nothing. When
  \<^verbatim>\<open>RUNPOD_API_KEY\<close> is missing (or empty) in the environment as \<^verbatim>\<open>load_dotenv\<close> leaves it,
  in particular when neither the process environment nor the \<^verbatim>\<open>.env\<close> file has it, every
  command ends with the \<^verbatim>\<open>ValueError\<close> of the constructor and an unchanged trace: no call
  to the provider was made. Whatever error the constructor raises ends the command before
  the method runs.
\<close>

theorem missing_token_fails_before_any_call:
  "trace (snd (init s)) = trace s
   \<and> (token_missing s \<longrightarrow>
        main P c s =
          (Inl (ValueError ''RUNPOD_API_KEY not found in environment. Set it in your .env file.''),
           s\<lparr>environ := environ s ++ dotenv_file s,
             self_api_key := (environ s ++ dotenv_file s) ''RUNPOD_API_KEY''\<rparr>)
        \<and> trace (snd (main P c s)) = trace s)
   \<and> (environ s ''RUNPOD_API_KEY'' = None \<and> dotenv_file s ''RUNPOD_API_KEY'' = None \<longrightarrow> token_missing s)
   \<and> (fst (init s) = Inl e \<longrightarrow> main P c s = (Inl e, snd (init s)))"
proof (intro conjI impI)
  show "trace (snd (init s)) = trace s"
    by (rule init_trace)
next
  assume "token_missing s"
  then show "main P c s =
          (Inl (ValueError ''RUNPOD_API_KEY not found in environment. Set it in your .env file.''),
           s\<lparr>environ := environ s ++ dotenv_file s,
             self_api_key := (environ s ++ dotenv_file s) ''RUNPOD_API_KEY''\<rparr>)"
    by (simp add: main_def seq_error [OF init_missing_token])
  then show "trace (snd (main P c s)) = trace s"
    by simp
next
  assume "environ s ''RUNPOD_API_KEY'' = None \<and> dotenv_file s ''RUNPOD_API_KEY'' = None"
  then show "token_missing s"
    by (simp add: token_missing_def map_add_def)
next
  assume "fst (init s) = Inl e"
  then have "init s = (Inl e, snd (init s))"
    by (cases "init s") simp
  then show "main P c s = (Inl e, snd (init s))"
    unfolding main_def by (rule seq_error)
qed

theorem missing_token_fails_before_any_call_witness:
  "fst (main (example_provider 0) List_pods example_state_without_token) =
     Inl (ValueError ''RUNPOD_API_KEY not found in environment. Set it in your .env file.'')
   \<and> trace (snd (main (example_provider 0) List_pods example_state_without_token)) = []
   \<and> fst (main (example_provider 0) (Create_pod default_create_args) example_state_without_token) =
     Inl (ValueError ''RUNPOD_API_KEY not found in environment. Set it in your .env file.'')
   \<and> trace (snd (main (example_provider 0) (Create_pod default_create_args) example_state_without_token)) = []"
proof -
  have absent: "environ example_state_without_token ''RUNPOD_API_KEY'' = None \<and>
      dotenv_file example_state_without_token ''RUNPOD_API_KEY'' = None"
    by (simp add: example_state_without_token_def example_state_def)
  have empty: "trace example_state_without_token = []"
    by (simp add: example_state_without_token_def example_state_def)
  note claim = missing_token_fails_before_any_call [of example_state_without_token]
  have missing: "token_missing example_state_without_token"
    using claim [THEN conjunct2, THEN conjunct2, THEN conjunct1] absent by (rule mp)
  note run = claim [THEN conjunct2, THEN conjunct1, THEN mp, OF missing]
  show ?thesis
    using run [of "example_provider 0" List_pods] run [of "example_provider 0" "Create_pod default_create_args"]
    by (simp add: empty)
qed

section \<open>Listing pods\<close>

text \<open>
  C10. \<^verbatim>\<open>get_pod\<close> and \<^verbatim>\<open>list_pods\<close> look for exactly one public port of every pod, whatever
  its status. For a pod whose \<^verbatim>\<open>runtime\<close> is null, which is a pod still provisioning for the
  wait of \<^verbatim>\<open>create_pod\<close> (its test is \<^verbatim>\<open>runtime is None\<close>), the default of
  \<^verbatim>\<open>pod.get("runtime", {})\<close> does not apply, since it replaces a missing key only, and
  \<^verbatim>\<open>.get("ports", [])\<close> is called on \<^verbatim>\<open>None\<close>. So \<^verbatim>\<open>get_pod\<close>, the loop body of
  \<^verbatim>\<open>list_pods\<close>, and \<^verbatim>\<open>list_pods\<close> on a list in which this pod is the first that cannot be
  printed in full, end with \<^verbatim>\<open>AttributeError\<close>: after the identity lines, and without
  reaching the assertion. Where the \<^verbatim>\<open>runtime\<close> key is missing the default applies and
  the assertion fails, as C10 says of every pod without a runtime (a null \<^verbatim>\<open>machine\<close>
  apart, which raises before).
\<close>

theorem listing_null_runtime_attribute_error:
  "(pod_runtime p = Null \<longrightarrow>
      pending p \<and> fst (list_pods_body i p s) = Inl AttributeError)
   \<and> (pod_runtime p = Null \<and> on_get_pod P (get_pod_calls s) (Some pid) = Inr p \<longrightarrow>
      fst (get_pod P pid s) = Inl AttributeError)
   \<and> (pod_runtime p = Null \<and> on_get_pod P (get_pod_calls s) (Some pid) = Inr p \<and>
       machine_get p m_gpuDisplayName = Inr gpu \<and> machine_get p m_podHostId = Inr host \<longrightarrow>
      get_pod P pid s =
        (Inl AttributeError,
         s\<lparr>trace := trace s @
            [GetPodCall (Some pid),
             Print ''Pod Details:'',
             Print (''  ID: '' @ fmt_str (get (pod_id p))),
             Print (''  Name: '' @ fmt_str (get (pod_name p))),
             Print (''  Machine Type: '' @ fmt_str gpu),
             Print (''  Status: '' @ fmt_str (get (pod_desiredStatus p))),
             Print (''  Pod Host ID: '' @ fmt_str host)],
           get_pod_calls := get_pod_calls s + 1\<rparr>))
   \<and> (pod_runtime p = Null \<and> on_get_pods P = Inr (qs @ p # rest) \<and> list_all displayable qs \<longrightarrow>
      fst (list_pods P s) = Inl AttributeError)
   \<and> (pod_runtime p = Absent \<longrightarrow>
      pending p \<and>
      fst (list_pods_body i p s) = Inl (if pod_machine p = Null then AttributeError else AssertionError []))
   \<and> (pod_runtime p = Absent \<and> on_get_pod P (get_pod_calls s) (Some pid) = Inr p \<longrightarrow>
      fst (get_pod P pid s) = Inl (if pod_machine p = Null then AttributeError else AssertionError []))"
proof (intro conjI impI)
  assume "pod_runtime p = Null"
  then show "pending p" by (simp add: pending_def)
next
  assume "pod_runtime p = Null"
  then show "fst (list_pods_body i p s) = Inl AttributeError"
    by (rule list_pods_body_null_runtime)
next
  assume "pod_runtime p = Null \<and> on_get_pod P (get_pod_calls s) (Some pid) = Inr p"
  then show "fst (get_pod P pid s) = Inl AttributeError"
    by (intro get_pod_null_runtime) simp_all
next
  assume "pod_runtime p = Null \<and> on_get_pod P (get_pod_calls s) (Some pid) = Inr p \<and>
       machine_get p m_gpuDisplayName = Inr gpu \<and> machine_get p m_podHostId = Inr host"
  then show "get_pod P pid s =
        (Inl AttributeError,
         s\<lparr>trace := trace s @
            [GetPodCall (Some pid),
             Print ''Pod Details:'',
             Print (''  ID: '' @ fmt_str (get (pod_id p))),
             Print (''  Name: '' @ fmt_str (get (pod_name p))),
             Print (''  Machine Type: '' @ fmt_str gpu),
             Print (''  Status: '' @ fmt_str (get (pod_desiredStatus p))),
             Print (''  Pod Host ID: '' @ fmt_str host)],
           get_pod_calls := get_pod_calls s + 1\<rparr>)"
    by (intro get_pod_null_runtime_state) simp_all
next
  assume a: "pod_runtime p = Null \<and> on_get_pods P = Inr (qs @ p # rest) \<and> list_all displayable qs"
  then have "fst (list_pods_body j p s1) = Inl AttributeError" for j s1
    by (intro list_pods_body_null_runtime) simp
  with a show "fst (list_pods P s) = Inl AttributeError"
    by (intro list_pods_first_failure [of P qs p rest]) simp_all
next
  assume "pod_runtime p = Absent"
  then show "pending p" by (simp add: pending_def)
next
  assume "pod_runtime p = Absent"
  then show "fst (list_pods_body i p s) = Inl (if pod_machine p = Null then AttributeError else AssertionError [])"
    by (rule list_pods_body_missing_runtime)
next
  assume "pod_runtime p = Absent \<and> on_get_pod P (get_pod_calls s) (Some pid) = Inr p"
  then show "fst (get_pod P pid s) = Inl (if pod_machine p = Null then AttributeError else AssertionError [])"
    by (intro get_pod_missing_runtime) simp_all
qed

theorem listing_null_runtime_attribute_error_witness:
  "pod_runtime example_pending = Null
   \<and> pending example_pending
   \<and> fst (get_pod (example_provider_with 0 example_pending) ''p1'' example_state) = Inl AttributeError
   \<and> fst (list_pods (example_provider_with 0 example_pending) example_state) = Inl AttributeError
   \<and> fst (get_pod (example_provider_with 0 example_unscheduled) ''p1'' example_state) =
       Inl (AssertionError [])"
proof -
  note claim = listing_null_runtime_attribute_error
  have null: "pod_runtime example_pending = Null"
    by (simp add: example_pending_def)
  have missing: "pod_runtime example_unscheduled = Absent" "pod_machine example_unscheduled \<noteq> Null"
    by (simp_all add: example_unscheduled_def example_pending_def)
  have answers: "on_get_pod (example_provider_with 0 q) (get_pod_calls example_state) (Some ''p1'') = Inr q"
    "on_get_pods (example_provider_with 0 q) = Inr ([example_ready] @ q # [])" for q
    by (simp_all add: example_provider_with_def)
  have shown: "list_all displayable [example_ready]"
    by (simp add: displayable_def machine_get_def listed_public_ip_def example_ready_def example_pod_def
        example_pending_def example_ports_def example_private_def example_public_def)
  have "pending example_pending"
    using claim [THEN conjunct1, THEN mp, OF null] by (rule conjunct1)
  moreover have "fst (get_pod (example_provider_with 0 example_pending) ''p1'' example_state) = Inl AttributeError"
    using claim [THEN conjunct2, THEN conjunct1, THEN mp, OF conjI [OF null answers(1)]] .
  moreover have "fst (list_pods (example_provider_with 0 example_pending) example_state) = Inl AttributeError"
    using claim [THEN conjunct2, THEN conjunct2, THEN conjunct2, THEN conjunct1, THEN mp,
        OF conjI [OF null conjI [OF answers(2) shown]]] .
  moreover have "fst (get_pod (example_provider_with 0 example_unscheduled) ''p1'' example_state) =
       Inl (AssertionError [])"
    using claim [THEN conjunct2, THEN conjunct2, THEN conjunct2, THEN conjunct2, THEN conjunct2, THEN mp,
        OF conjI [OF missing(1) answers(1)]] missing(2)
    by simp
  ultimately show ?thesis
    using null by (intro conjI)
qed

end
